theory Spec2Isabelle
  imports Main "HOL-Library.Word"
begin

unbundle bit_operations_syntax

section \<open>Strings and paths\<close>

text \<open>
  Go strings are byte sequences; they are modelled as \<open>string\<close>.  The path functions of
  \<^verbatim>\<open>path/filepath\<close> are library code; they are modelled after their Unix implementation
  (separator \<open>/\<close>, no volume names).
\<close>

definition HasSuffix :: "string \<Rightarrow> string \<Rightarrow> bool" where
  "HasSuffix s suffix =
     (length suffix \<le> length s \<and> drop (length s - length suffix) s = suffix)"

definition HasPrefix :: "string \<Rightarrow> string \<Rightarrow> bool" where
  "HasPrefix s prefix = (length prefix \<le> length s \<and> take (length prefix) s = prefix)"

fun Contains :: "string \<Rightarrow> string \<Rightarrow> bool" where
  "Contains [] substr = (substr = [])"
| "Contains (c # cs) substr = (HasPrefix (c # cs) substr \<or> Contains cs substr)"

text \<open>\<^verbatim>\<open>strings.ToLower\<close>, on the ASCII letters.\<close>

definition lower_char :: "char \<Rightarrow> char" where
  "lower_char c =
     (let n = (of_char c :: nat)
      in if 65 \<le> n \<and> n \<le> 90 then char_of (n + 32) else c)"

definition ToLower :: "string \<Rightarrow> string" where
  "ToLower s = map lower_char s"

definition isSlash :: "char \<Rightarrow> bool" where
  "isSlash c = (c = CHR ''/'')"

definition Base :: "string \<Rightarrow> string" where
  "Base path =
     (if path = [] then ''.''
      else let stripped = rev (dropWhile isSlash (rev path));
               elem = rev (takeWhile (\<lambda>c. \<not> isSlash c) (rev stripped))
           in if elem = [] then ''/'' else elem)"

fun splitSlash :: "string \<Rightarrow> string list" where
  "splitSlash [] = [[]]"
| "splitSlash (c # cs) =
     (if isSlash c then [] # splitSlash cs
      else (case splitSlash cs of [] \<Rightarrow> [[c]] | x # xs \<Rightarrow> (c # x) # xs))"

text \<open>
  \<open>cleanElems\<close> is the loop of \<^verbatim>\<open>filepath.Clean\<close>: \<open>out\<close> is the stack of
  elements written so far (last one first) and \<open>dotdot\<close> counts the leading \<open>..\<close>
  elements that cannot be backtracked over.
\<close>

fun cleanElems :: "bool \<Rightarrow> string list \<Rightarrow> nat \<Rightarrow> string list \<Rightarrow> string list" where
  "cleanElems rooted out dotdot [] = rev out"
| "cleanElems rooted out dotdot (e # es) =
     (if e = [] \<or> e = ''.'' then cleanElems rooted out dotdot es
      else if e = ''..'' then
        (if dotdot < length out then cleanElems rooted (tl out) dotdot es
         else if \<not> rooted then cleanElems rooted (e # out) (Suc dotdot) es
         else cleanElems rooted out dotdot es)
      else cleanElems rooted (e # out) dotdot es)"

fun joinSlash :: "string list \<Rightarrow> string" where
  "joinSlash [] = []"
| "joinSlash [e] = e"
| "joinSlash (e # es) = e @ ''/'' @ joinSlash es"

definition Clean :: "string \<Rightarrow> string" where
  "Clean path =
     (if path = [] then ''.''
      else let rooted = isSlash (hd path);
               body = joinSlash (cleanElems rooted [] 0 (splitSlash path));
               out = (if rooted then ''/'' @ body else body)
           in if out = [] then ''.'' else out)"

definition Dir :: "string \<Rightarrow> string" where
  "Dir path = Clean (rev (dropWhile (\<lambda>c. \<not> isSlash c) (rev path)))"

definition Join :: "string \<Rightarrow> string \<Rightarrow> string" where
  "Join a b =
     (if a \<noteq> [] then Clean (a @ ''/'' @ b)
      else if b \<noteq> [] then Clean b
      else [])"

section \<open>FileFilter\<close>

text \<open>
  \<^verbatim>\<open>shouldSyncFile\<close> occurs with the same body in package main, package watcher and
  package sync.
\<close>

definition shouldSyncFile :: "string \<Rightarrow> bool" where
  "shouldSyncFile filePath =
     (let name = Base filePath
      in HasSuffix name ''.sav'' \<and> name \<noteq> ''EnhancedInputUserSettings.sav'')"

section \<open>Time\<close>

text \<open>
  A \<^verbatim>\<open>time.Time\<close> is an instant, modelled as the (unbounded) number of nanoseconds since
  the Unix epoch; \<^verbatim>\<open>UTC()\<close> does not change the instant.  A \<^verbatim>\<open>time.Duration\<close> is an
  \<^verbatim>\<open>int64\<close> count of nanoseconds: \<^verbatim>\<open>Time.Sub\<close> saturates at the ends of that range and
  integer negation wraps around.
\<close>

type_synonym Time = int
type_synonym Duration = int

definition minDuration :: Duration where
  "minDuration = - (2 ^ 63)"

definition maxDuration :: Duration where
  "maxDuration = 2 ^ 63 - 1"

definition wrap64 :: "int \<Rightarrow> int" where
  "wrap64 x = (x + 2 ^ 63) mod 2 ^ 64 - 2 ^ 63"

definition Sub :: "Time \<Rightarrow> Time \<Rightarrow> Duration" where
  "Sub t u =
     (if t - u < minDuration then minDuration
      else if maxDuration < t - u then maxDuration
      else t - u)"

definition neg :: "Duration \<Rightarrow> Duration" where
  "neg d = wrap64 (- d)"

definition Millisecond :: Duration where
  "Millisecond = 1000000"

definition Second :: Duration where
  "Second = 1000000000"

section \<open>ChangeWatcher\<close>

text \<open>
  \<^verbatim>\<open>fsnotify.Op\<close> is a bit set (\<^verbatim>\<open>Create = 1\<close>, \<^verbatim>\<open>Write = 2\<close>, \<^verbatim>\<open>Remove = 4\<close>,
  \<^verbatim>\<open>Rename = 8\<close>, \<^verbatim>\<open>Chmod = 16\<close>).
\<close>

type_synonym Op = "32 word"

definition Create :: Op where "Create = 1"
definition Write :: Op where "Write = 2"
definition Remove :: Op where "Remove = 4"
definition Rename :: Op where "Rename = 8"
definition Chmod :: Op where "Chmod = 16"

record Event =
  ev_Name :: string
  ev_Op :: Op

record FileWatcher =
  fw_watchPath :: string
  fw_eventCooldown :: Duration
  fw_lastEventTime :: "string \<rightharpoonup> Time"

text \<open>
  \<^verbatim>\<open>FileWatcher.ShouldProcess\<close>.  The reading of \<^verbatim>\<open>time.Now()\<close> is the argument \<open>now\<close>;
  the method mutates \<^verbatim>\<open>fw.lastEventTime\<close>, so the model returns the watcher as well.
\<close>

definition ShouldProcess :: "FileWatcher \<Rightarrow> Event \<Rightarrow> Time \<Rightarrow> bool \<times> FileWatcher" where
  "ShouldProcess fw event now =
     (if ev_Op event AND (Write OR Create) = 0 then (False, fw)
      else if \<not> shouldSyncFile (ev_Name event) then (False, fw)
      else if Dir (ev_Name event) \<noteq> Clean (fw_watchPath fw) then (False, fw)
      else (case fw_lastEventTime fw (ev_Name event) of
              Some lastTime \<Rightarrow>
                if Sub now lastTime \<le> fw_eventCooldown fw then (False, fw)
                else (True, fw\<lparr>fw_lastEventTime := (fw_lastEventTime fw)(ev_Name event \<mapsto> now)\<rparr>)
            | None \<Rightarrow>
                (True, fw\<lparr>fw_lastEventTime := (fw_lastEventTime fw)(ev_Name event \<mapsto> now)\<rparr>)))"

section \<open>The environment: file system, object store, processes\<close>

text \<open>
  The program acts on a local file system and on one bucket of a remote object store,
  through the Go standard library and the MinIO client.  These collaborators are modelled
  by a \<open>world\<close> that every operation takes and returns:
  \<^item> \<open>fs\<close> maps a path to a regular file (content, modification time) or a directory;
  \<^item> \<open>bucket\<close> is \<open>None\<close> while the bucket does not exist, else its objects by name;
  \<^item> \<open>fails\<close> says which calls of the environment break with an I/O or network error
    (a fault that is not explained by the state: permissions, disk full, the network);
    whether a call breaks depends on the call and its target, and stays the same while
    one action runs;
  \<^item> \<open>clock\<close> is the reading of \<^verbatim>\<open>time.Now()\<close>, \<open>tempDir\<close> the value of
    \<^verbatim>\<open>os.TempDir()\<close>, \<open>layout\<close> the result of formatting an instant with the layout
    \<^verbatim>\<open>2006-01-02_15-04-05.000000\<close>, and \<open>processes\<close> the result of
    \<^verbatim>\<open>process.Processes()\<close> with, for each process, the result of \<^verbatim>\<open>Name()\<close>.
  Log output is not part of the model.
\<close>

datatype error =
    ErrNotExist | ErrExist | ErrIsDir | ErrNotDir | ErrIO
  | ErrNet | ErrNoSuchKey | ErrNoSuchBucket
  | ErrSyntax | ErrRange
  | Errorf string
  | Wrapf string error

datatype node = File string Time | Directory Time

datatype call =
    SysStat string | SysOpen string | SysCreate string | SysWrite string
  | SysMkdir string | SysMkdirAll string | SysRemove string | SysChtimes string
  | SysProcesses
  | NetBucketExists | NetMakeBucket
  | NetStatObject string | NetGetObject string | NetPutObject string

record object =
  obj_data :: string
  obj_UserMetadata :: "string \<rightharpoonup> string"
  obj_LastModified :: Time

record world =
  fs :: "string \<rightharpoonup> node"
  bucket :: "(string \<rightharpoonup> object) option"
  fails :: "call \<Rightarrow> bool"
  clock :: Time
  tempDir :: string
  layout :: "Time \<Rightarrow> string"
  processes :: "string option list"

subsection \<open>Package os\<close>

record FileInfo =
  fi_ModTime :: Time
  fi_IsDir :: bool

definition os_Stat :: "world \<Rightarrow> string \<Rightarrow> error + FileInfo" where
  "os_Stat w path =
     (if fails w (SysStat path) then Inl ErrIO
      else (case fs w path of
              None \<Rightarrow> Inl ErrNotExist
            | Some (File data t) \<Rightarrow> Inr \<lparr>fi_ModTime = t, fi_IsDir = False\<rparr>
            | Some (Directory t) \<Rightarrow> Inr \<lparr>fi_ModTime = t, fi_IsDir = True\<rparr>))"

definition IsNotExist :: "error \<Rightarrow> bool" where
  "IsNotExist err = (err = ErrNotExist)"

definition os_ReadFile :: "world \<Rightarrow> string \<Rightarrow> error + string" where
  "os_ReadFile w path =
     (if fails w (SysOpen path) then Inl ErrIO
      else (case fs w path of
              None \<Rightarrow> Inl ErrNotExist
            | Some (File data t) \<Rightarrow> Inr data
            | Some (Directory t) \<Rightarrow> Inl ErrIsDir))"

text \<open>
  \<^verbatim>\<open>os.Create\<close> opens with \<^verbatim>\<open>O_CREATE|O_TRUNC\<close>: once it has succeeded the file is
  empty.  \<^verbatim>\<open>os.WriteFile\<close> opens the same way and then writes; a write that breaks
  leaves the truncated file behind.
\<close>

definition os_Create :: "world \<Rightarrow> string \<Rightarrow> error option \<times> world" where
  "os_Create w path =
     (if fails w (SysCreate path) then (Some ErrIO, w)
      else (case fs w path of
              Some (Directory t) \<Rightarrow> (Some ErrIsDir, w)
            | _ \<Rightarrow> (None, w\<lparr>fs := (fs w)(path \<mapsto> File [] (clock w))\<rparr>)))"

definition os_WriteFile :: "world \<Rightarrow> string \<Rightarrow> string \<Rightarrow> error option \<times> world" where
  "os_WriteFile w path data =
     (case os_Create w path of
        (Some err, w1) \<Rightarrow> (Some err, w1)
      | (None, w1) \<Rightarrow>
          if fails w1 (SysWrite path) then (Some ErrIO, w1)
          else (None, w1\<lparr>fs := (fs w1)(path \<mapsto> File data (clock w1))\<rparr>))"

text \<open>
  \<^verbatim>\<open>io.Copy(dstFile, srcFile)\<close> on two open files, named here by their paths: it reads
  the source as it is when the copy runs.
\<close>

definition io_Copy :: "world \<Rightarrow> string \<Rightarrow> string \<Rightarrow> error option \<times> world" where
  "io_Copy w dst src =
     (case fs w src of
        Some (File data t) \<Rightarrow>
          if fails w (SysWrite dst) then (Some ErrIO, w)
          else (None, w\<lparr>fs := (fs w)(dst \<mapsto> File data (clock w))\<rparr>)
      | Some (Directory t) \<Rightarrow> (Some ErrIsDir, w)
      | None \<Rightarrow> (Some ErrNotExist, w))"

definition os_Mkdir :: "world \<Rightarrow> string \<Rightarrow> error option \<times> world" where
  "os_Mkdir w path =
     (if fails w (SysMkdir path) then (Some ErrIO, w)
      else (case fs w path of
              Some n \<Rightarrow> (Some ErrExist, w)
            | None \<Rightarrow> (None, w\<lparr>fs := (fs w)(path \<mapsto> Directory (clock w))\<rparr>)))"

definition os_MkdirAll :: "world \<Rightarrow> string \<Rightarrow> error option \<times> world" where
  "os_MkdirAll w path =
     (if fails w (SysMkdirAll path) then (Some ErrIO, w)
      else (case fs w path of
              Some (File data t) \<Rightarrow> (Some ErrNotDir, w)
            | Some (Directory t) \<Rightarrow> (None, w)
            | None \<Rightarrow> (None, w\<lparr>fs := (fs w)(path \<mapsto> Directory (clock w))\<rparr>)))"

definition os_Remove :: "world \<Rightarrow> string \<Rightarrow> error option \<times> world" where
  "os_Remove w path =
     (if fails w (SysRemove path) then (Some ErrIO, w)
      else (case fs w path of
              None \<Rightarrow> (Some ErrNotExist, w)
            | Some n \<Rightarrow> (None, w\<lparr>fs := (fs w)(path := None)\<rparr>)))"

definition os_Chtimes :: "world \<Rightarrow> string \<Rightarrow> Time \<Rightarrow> error option \<times> world" where
  "os_Chtimes w path mtime =
     (if fails w (SysChtimes path) then (Some ErrIO, w)
      else (case fs w path of
              None \<Rightarrow> (Some ErrNotExist, w)
            | Some (File data t) \<Rightarrow> (None, w\<lparr>fs := (fs w)(path \<mapsto> File data mtime)\<rparr>)
            | Some (Directory t) \<Rightarrow> (None, w\<lparr>fs := (fs w)(path \<mapsto> Directory mtime)\<rparr>)))"

subsection \<open>Packages strconv, fmt and time\<close>

definition digit :: "int \<Rightarrow> char" where
  "digit d = char_of (48 + d)"

function digits :: "int \<Rightarrow> string" where
  "digits n = (if n < 10 then [digit n] else digits (n div 10) @ [digit (n mod 10)])"
  by pat_completeness auto
termination
  by (relation "measure nat") auto

declare digits.simps [simp del]

text \<open>\<^verbatim>\<open>fmt.Sprintf("%d", n)\<close> for an \<^verbatim>\<open>int64\<close>.\<close>

definition Sprintf_d :: "int \<Rightarrow> string" where
  "Sprintf_d n = (if n < 0 then CHR ''-'' # digits (- n) else digits n)"

definition digitVal :: "char \<Rightarrow> int option" where
  "digitVal c =
     (let n = (of_char c :: int) in if 48 \<le> n \<and> n \<le> 57 then Some (n - 48) else None)"

fun parseDigits :: "int \<Rightarrow> string \<Rightarrow> int option" where
  "parseDigits acc [] = Some acc"
| "parseDigits acc (c # cs) =
     (case digitVal c of None \<Rightarrow> None | Some d \<Rightarrow> parseDigits (acc * 10 + d) cs)"

text \<open>
  \<^verbatim>\<open>strconv.ParseInt(s, 10, 64)\<close>: an optional sign, then at least one decimal digit and
  nothing else; a value outside \<^verbatim>\<open>int64\<close> is a range error.
\<close>

definition ParseInt :: "string \<Rightarrow> error + int" where
  "ParseInt s =
     (if s = [] then Inl ErrSyntax
      else let negative = (hd s = CHR ''-'');
               body = (if hd s = CHR ''+'' \<or> hd s = CHR ''-'' then tl s else s)
           in if body = [] then Inl ErrSyntax
              else (case parseDigits 0 body of
                      None \<Rightarrow> Inl ErrSyntax
                    | Some un \<Rightarrow>
                        if \<not> negative \<and> 2 ^ 63 \<le> un then Inl ErrRange
                        else if negative \<and> 2 ^ 63 < un then Inl ErrRange
                        else Inr (if negative then - un else un)))"

text \<open>
  \<^verbatim>\<open>Time.UnixNano()\<close> computes in \<^verbatim>\<open>int64\<close>: outside the years 1678 to 2262 the
  result wraps around.  \<^verbatim>\<open>time.Unix(0, ns)\<close> is the instant \<open>ns\<close> nanoseconds after
  the epoch.
\<close>

definition UnixNano :: "Time \<Rightarrow> int" where
  "UnixNano t = wrap64 t"

definition time_Unix :: "int \<Rightarrow> Time" where
  "time_Unix ns = ns"

subsection \<open>The MinIO client\<close>

text \<open>
  The client sends the user metadata of \<^verbatim>\<open>PutObjectOptions\<close> as headers named
  \<^verbatim>\<open>X-Amz-Meta-...\<close> and returns them from \<^verbatim>\<open>StatObject\<close> in \<^verbatim>\<open>UserMetadata\<close>
  under the name that follows this prefix.  \<^verbatim>\<open>FGetObject\<close> writes the object to a
  part file and renames it, so the target appears only when the transfer is complete.
\<close>

record ObjectInfo =
  oi_Key :: string
  oi_LastModified :: Time
  oi_Size :: nat
  oi_UserMetadata :: "string \<rightharpoonup> string"

definition BucketExists :: "world \<Rightarrow> error + bool" where
  "BucketExists w =
     (if fails w NetBucketExists then Inl ErrNet else Inr (bucket w \<noteq> None))"

definition MakeBucket :: "world \<Rightarrow> error option \<times> world" where
  "MakeBucket w =
     (if fails w NetMakeBucket then (Some ErrNet, w)
      else (case bucket w of
              Some objs \<Rightarrow> (Some ErrExist, w)
            | None \<Rightarrow> (None, w\<lparr>bucket := Some Map.empty\<rparr>)))"

definition FPutObject ::
  "world \<Rightarrow> string \<Rightarrow> string \<Rightarrow> (string \<rightharpoonup> string) \<Rightarrow> error option \<times> world" where
  "FPutObject w objectName filePath userMeta =
     (case fs w filePath of
        None \<Rightarrow> (Some ErrNotExist, w)
      | Some (Directory t) \<Rightarrow> (Some ErrIsDir, w)
      | Some (File data t) \<Rightarrow>
          if fails w (NetPutObject objectName) then (Some ErrNet, w)
          else (case bucket w of
                  None \<Rightarrow> (Some ErrNoSuchBucket, w)
                | Some objs \<Rightarrow>
                    (None, w\<lparr>bucket := Some (objs(objectName \<mapsto>
                       \<lparr>obj_data = data,
                        obj_UserMetadata = (\<lambda>k. userMeta (''X-Amz-Meta-'' @ k)),
                        obj_LastModified = clock w\<rparr>))\<rparr>)))"

definition StatObject :: "world \<Rightarrow> string \<Rightarrow> error + ObjectInfo" where
  "StatObject w objectName =
     (if fails w (NetStatObject objectName) then Inl ErrNet
      else (case bucket w of
              None \<Rightarrow> Inl ErrNoSuchBucket
            | Some objs \<Rightarrow>
                (case objs objectName of
                   None \<Rightarrow> Inl ErrNoSuchKey
                 | Some obj \<Rightarrow>
                     Inr \<lparr>oi_Key = objectName,
                          oi_LastModified = obj_LastModified obj,
                          oi_Size = length (obj_data obj),
                          oi_UserMetadata = obj_UserMetadata obj\<rparr>)))"

definition FGetObject :: "world \<Rightarrow> string \<Rightarrow> string \<Rightarrow> error option \<times> world" where
  "FGetObject w objectName filePath =
     (if fails w (NetGetObject objectName) then (Some ErrNet, w)
      else (case bucket w of
              None \<Rightarrow> (Some ErrNoSuchBucket, w)
            | Some objs \<Rightarrow>
                (case objs objectName of
                   None \<Rightarrow> (Some ErrNoSuchKey, w)
                 | Some obj \<Rightarrow>
                     (case fs w filePath of
                        Some (Directory t) \<Rightarrow> (Some ErrIsDir, w)
                      | _ \<Rightarrow>
                          (None, w\<lparr>fs := (fs w)(filePath \<mapsto>
                             File (obj_data obj) (clock w))\<rparr>)))))"

section \<open>Package storage\<close>

text \<open>
  \<^verbatim>\<open>S3Client\<close> holds the MinIO client and the bucket name; the world has the one bucket.
  The field \<^verbatim>\<open>ETag\<close> of \<^verbatim>\<open>storage.FileInfo\<close> is never read and is left out, so that
  \<^verbatim>\<open>storage.FileInfo\<close> and \<^verbatim>\<open>SyncFileInfo\<close> are one record.
\<close>

record SyncFileInfo =
  sfi_Name :: string
  sfi_ModTime :: Time
  sfi_Size :: nat

definition lookupMeta :: "(string \<rightharpoonup> string) \<Rightarrow> string \<Rightarrow> string" where
  "lookupMeta m k = (case m k of None \<Rightarrow> [] | Some v \<Rightarrow> v)"

definition extractModTime :: "ObjectInfo \<Rightarrow> Time" where
  "extractModTime stat =
     (let cloudModTime = oi_LastModified stat;
          rawModTime = lookupMeta (oi_UserMetadata stat) ''Modtime''
      in if rawModTime \<noteq> [] then
           (case ParseInt rawModTime of
              Inr ts \<Rightarrow> time_Unix ts
            | Inl err \<Rightarrow> cloudModTime)
         else cloudModTime)"

definition S3Client_Upload :: "world \<Rightarrow> string \<Rightarrow> string \<Rightarrow> error option \<times> world" where
  "S3Client_Upload w localPath objectName =
     (case os_Stat w localPath of
        Inl err \<Rightarrow> (Some (Wrapf ''failed to stat file'' err), w)
      | Inr info \<Rightarrow>
          let modTime = fi_ModTime info;
              userMeta = [''X-Amz-Meta-Modtime'' \<mapsto> Sprintf_d (UnixNano modTime),
                          ''X-Amz-Meta-ModtimeString'' \<mapsto> layout w modTime]
          in (case FPutObject w objectName localPath userMeta of
                (Some err, w1) \<Rightarrow> (Some (Wrapf ''failed to upload file'' err), w1)
              | (None, w1) \<Rightarrow> (None, w1)))"

definition S3Client_Download :: "world \<Rightarrow> string \<Rightarrow> string \<Rightarrow> error option \<times> world" where
  "S3Client_Download w objectName localPath =
     (case FGetObject w objectName localPath of
        (Some err, w1) \<Rightarrow> (Some (Wrapf ''failed to download file'' err), w1)
      | (None, w1) \<Rightarrow> (None, w1))"

definition S3Client_Stat :: "world \<Rightarrow> string \<Rightarrow> error + SyncFileInfo" where
  "S3Client_Stat w objectName =
     (case StatObject w objectName of
        Inl err \<Rightarrow> Inl (Wrapf ''failed to stat object'' err)
      | Inr stat \<Rightarrow>
          Inr \<lparr>sfi_Name = oi_Key stat, sfi_ModTime = extractModTime stat,
               sfi_Size = oi_Size stat\<rparr>)"

section \<open>Package sync\<close>

text \<open>
  The \<^verbatim>\<open>Storage\<close> of a \<^verbatim>\<open>Syncer\<close> is the \<^verbatim>\<open>storage.Adapter\<close>, whose methods pass
  their arguments to the \<^verbatim>\<open>S3Client\<close> and copy the fields of its results.
\<close>

record Syncer =
  s_watchPath :: string
  s_backupDir :: string
  s_processName :: string
  s_timeTolerance :: Duration

fun matchProcess :: "string option list \<Rightarrow> string \<Rightarrow> bool" where
  "matchProcess [] name = False"
| "matchProcess (p # ps) name =
     (case p of
        Some exeName \<Rightarrow> if Contains (ToLower exeName) name then True else matchProcess ps name
      | None \<Rightarrow> matchProcess ps name)"

definition IsProcessRunning :: "Syncer \<Rightarrow> world \<Rightarrow> bool" where
  "IsProcessRunning s w =
     (if s_processName s = [] then False
      else if fails w SysProcesses then False
      else matchProcess (processes w) (ToLower (s_processName s)))"

definition fileExists :: "world \<Rightarrow> string \<Rightarrow> bool" where
  "fileExists w path = (case os_Stat w path of Inl err \<Rightarrow> False | Inr info \<Rightarrow> True)"

definition copyFile :: "world \<Rightarrow> string \<Rightarrow> string \<Rightarrow> error option \<times> world" where
  "copyFile w src dst =
     (case os_ReadFile w src of
        Inl err \<Rightarrow> (Some (Wrapf ''failed to read source'' err), w)
      | Inr input \<Rightarrow>
          (case os_WriteFile w dst input of
             (Some err, w1) \<Rightarrow> (Some (Wrapf ''failed to write destination'' err), w1)
           | (None, w1) \<Rightarrow> (None, w1)))"

definition ensureDir :: "world \<Rightarrow> string \<Rightarrow> error option \<times> world" where
  "ensureDir w path =
     (case os_Stat w path of
        Inl err \<Rightarrow>
          if IsNotExist err then os_MkdirAll w path
          else (Some (Wrapf ''failed to stat directory'' err), w)
      | Inr info \<Rightarrow>
          if \<not> fi_IsDir info then (Some (Errorf ''path exists but is not a directory''), w)
          else (None, w))"

definition createTimestampedBackupDir :: "Syncer \<Rightarrow> world \<Rightarrow> (error + string) \<times> world" where
  "createTimestampedBackupDir s w =
     (case ensureDir w (s_backupDir s) of
        (Some err, w1) \<Rightarrow> (Inl err, w1)
      | (None, w1) \<Rightarrow>
          let timestamp = layout w1 (clock w1);
              backupPath = Join (s_backupDir s) timestamp
          in (case os_Mkdir w1 backupPath of
                (Some err, w2) \<Rightarrow>
                  (Inl (Wrapf ''failed to create timestamped backup directory'' err), w2)
              | (None, w2) \<Rightarrow> (Inr backupPath, w2)))"

definition createBackup :: "Syncer \<Rightarrow> world \<Rightarrow> string \<Rightarrow> error option \<times> world" where
  "createBackup s w filePath =
     (case createTimestampedBackupDir s w of
        (Inl err, w1) \<Rightarrow> (Some (Wrapf ''failed to create backup directory'' err), w1)
      | (Inr backupPath, w1) \<Rightarrow>
          let backupFile = Join backupPath (Base filePath)
          in (case copyFile w1 filePath backupFile of
                (Some err, w2) \<Rightarrow> (Some (Wrapf ''failed to copy file to backup'' err), w2)
              | (None, w2) \<Rightarrow> (None, w2)))"

definition backupAndUpload :: "Syncer \<Rightarrow> world \<Rightarrow> string \<Rightarrow> string \<Rightarrow> error option \<times> world" where
  "backupAndUpload s w filePath objectName =
     (case (if fileExists w filePath then createBackup s w filePath else (None, w)) of
        (Some err, w1) \<Rightarrow> (Some (Wrapf ''failed to create backup'' err), w1)
      | (None, w1) \<Rightarrow>
          (case S3Client_Upload w1 filePath objectName of
             (Some err, w2) \<Rightarrow> (Some (Wrapf ''failed to upload'' err), w2)
           | (None, w2) \<Rightarrow> (None, w2)))"

text \<open>
  In \<^verbatim>\<open>downloadAndReplace\<close> the result of \<^verbatim>\<open>os.Remove\<close> is dropped, and an error of
  \<^verbatim>\<open>os.Chtimes\<close> is logged as a warning: the method still returns \<^verbatim>\<open>nil\<close>.
\<close>

definition downloadAndReplace ::
  "Syncer \<Rightarrow> world \<Rightarrow> string \<Rightarrow> string \<Rightarrow> Time \<Rightarrow> error option \<times> world" where
  "downloadAndReplace s w objectName localPath modTime =
     (case (if fileExists w localPath then createBackup s w localPath else (None, w)) of
        (Some err, w1) \<Rightarrow> (Some (Wrapf ''failed to create backup'' err), w1)
      | (None, w1) \<Rightarrow>
          let tempPath = Join (tempDir w1) (objectName @ ''.download'')
          in (case S3Client_Download w1 objectName tempPath of
                (Some err, w2) \<Rightarrow> (Some (Wrapf ''failed to download'' err), w2)
              | (None, w2) \<Rightarrow>
                  (case copyFile w2 tempPath localPath of
                     (Some err, w3) \<Rightarrow>
                       (Some (Wrapf ''failed to replace local file'' err),
                        snd (os_Remove w3 tempPath))
                   | (None, w3) \<Rightarrow>
                       let w4 = snd (os_Remove w3 tempPath)
                       in (case os_Chtimes w4 localPath modTime of
                             (Some err, w5) \<Rightarrow> (None, w5)
                           | (None, w5) \<Rightarrow> (None, w5)))))"

definition SyncFile :: "Syncer \<Rightarrow> world \<Rightarrow> string \<Rightarrow> error option \<times> world" where
  "SyncFile s w filePath =
     (case os_Stat w filePath of
        Inl err \<Rightarrow> (Some (Wrapf ''failed to stat file'' err), w)
      | Inr info \<Rightarrow>
          if fi_IsDir info then (Some (Errorf ''path is a directory, not a file''), w)
          else
            let objectName = Base filePath
            in (case S3Client_Stat w objectName of
                  Inl err \<Rightarrow> backupAndUpload s w filePath objectName
                | Inr cloudInfo \<Rightarrow>
                    let localTime = fi_ModTime info;
                        cloudTime = sfi_ModTime cloudInfo;
                        diff = Sub cloudTime localTime
                    in if diff > s_timeTolerance s then
                         downloadAndReplace s w objectName filePath cloudTime
                       else if diff < neg (s_timeTolerance s) then
                         backupAndUpload s w filePath objectName
                       else (None, w)))"

section \<open>Package main (main.go)\<close>

text \<open>
  The package-level variables \<^verbatim>\<open>watchPath\<close>, \<^verbatim>\<open>processName\<close> and \<^verbatim>\<open>backupDir\<close> are set
  by \<^verbatim>\<open>configure()\<close>, which is not part of the sources at hand; they are the fields of
  \<open>Globals\<close>.  The functions of package main that share a name with one of package sync
  carry the prefix \<open>main_\<close>; \<^verbatim>\<open>fileExists\<close> and \<^verbatim>\<open>shouldSyncFile\<close> are the same in both.
\<close>

record Globals =
  watchPath :: string
  processName :: string
  backupDir :: string

definition timeTolerance :: Duration where
  "timeTolerance = 500 * Millisecond"

definition eventCooldown :: Duration where
  "eventCooldown = 1 * Second"

definition isProcessRunning :: "world \<Rightarrow> string \<Rightarrow> bool" where
  "isProcessRunning w name =
     (if fails w SysProcesses then False
      else matchProcess (processes w) (ToLower name))"

definition getCloudModTime :: "ObjectInfo \<Rightarrow> Time" where
  "getCloudModTime stat =
     (let cloudModTime = oi_LastModified stat;
          rawModTime = lookupMeta (oi_UserMetadata stat) ''Modtime''
      in if rawModTime \<noteq> [] then
           (case ParseInt rawModTime of
              Inl err \<Rightarrow> cloudModTime
            | Inr ts \<Rightarrow> time_Unix ts)
         else cloudModTime)"

definition os_Open :: "world \<Rightarrow> string \<Rightarrow> error option" where
  "os_Open w path =
     (if fails w (SysOpen path) then Some ErrIO
      else (case fs w path of None \<Rightarrow> Some ErrNotExist | Some n \<Rightarrow> None))"

definition main_copyFile :: "world \<Rightarrow> string \<Rightarrow> string \<Rightarrow> error option \<times> world" where
  "main_copyFile w src dst =
     (case os_Open w src of
        Some err \<Rightarrow> (Some err, w)
      | None \<Rightarrow>
          (case os_Create w dst of
             (Some err, w1) \<Rightarrow> (Some err, w1)
           | (None, w1) \<Rightarrow> io_Copy w1 dst src))"

definition ensureFolderExists :: "world \<Rightarrow> string \<Rightarrow> error option \<times> world" where
  "ensureFolderExists w path =
     (case os_Stat w path of
        Inl err \<Rightarrow>
          if IsNotExist err then
            (case os_MkdirAll w path of
               (Some err1, w1) \<Rightarrow> (Some err1, w1)
             | (None, w1) \<Rightarrow> (None, w1))
          else (Some err, w)
      | Inr info \<Rightarrow>
          if \<not> fi_IsDir info then (Some (Errorf ''path exists but is not a folder''), w)
          else (None, w))"

text \<open>\<^verbatim>\<open>createBackupTimeFolder\<close> returns the path together with the error of \<^verbatim>\<open>os.Mkdir\<close>.\<close>

definition createBackupTimeFolder :: "Globals \<Rightarrow> world \<Rightarrow> (string \<times> error option) \<times> world" where
  "createBackupTimeFolder g w =
     (case ensureFolderExists w (backupDir g) of
        (Some err, w1) \<Rightarrow> (([], Some err), w1)
      | (None, w1) \<Rightarrow>
          let timeFolder = layout w1 (clock w1);
              backupPath = Join (backupDir g) timeFolder
          in (case os_Mkdir w1 backupPath of (err, w2) \<Rightarrow> ((backupPath, err), w2)))"

definition backupAndReplace :: "Globals \<Rightarrow> world \<Rightarrow> string \<Rightarrow> string \<Rightarrow> world" where
  "backupAndReplace g w localPath newPath =
     (if fileExists w localPath then
        (case createBackupTimeFolder g w of
           ((backupPath, Some err), w1) \<Rightarrow> w1
         | ((backupPath, None), w1) \<Rightarrow>
             let backupFile = Join backupPath (Base localPath)
             in (case main_copyFile w1 localPath backupFile of
                   (Some err, w2) \<Rightarrow> w2
                 | (None, w2) \<Rightarrow> snd (main_copyFile w2 newPath localPath)))
      else snd (main_copyFile w newPath localPath))"

definition uploadToCloud :: "world \<Rightarrow> string \<Rightarrow> string \<Rightarrow> world" where
  "uploadToCloud w filePath objectName =
     (case BucketExists w of
        Inl err \<Rightarrow> w
      | Inr exists \<Rightarrow>
          (case (if \<not> exists then MakeBucket w else (None, w)) of
             (Some err, w1) \<Rightarrow> w1
           | (None, w1) \<Rightarrow>
               let modTime = (case os_Stat w1 filePath of
                                Inr info \<Rightarrow> fi_ModTime info
                              | Inl err \<Rightarrow> clock w1);
                   userMeta = [''X-Amz-Meta-Modtime'' \<mapsto> Sprintf_d (UnixNano modTime),
                               ''X-Amz-Meta-ModtimeString'' \<mapsto> layout w1 modTime]
               in snd (FPutObject w1 objectName filePath userMeta)))"

text \<open>
  In \<^verbatim>\<open>backupAndUpload\<close> of main.go an error of \<^verbatim>\<open>copyFile\<close> is logged and the function
  goes on to \<^verbatim>\<open>uploadToCloud\<close>.
\<close>

definition main_backupAndUpload :: "Globals \<Rightarrow> world \<Rightarrow> string \<Rightarrow> world" where
  "main_backupAndUpload g w filePath =
     (case createBackupTimeFolder g w of
        ((backupPath, Some err), w1) \<Rightarrow> w1
      | ((backupPath, None), w1) \<Rightarrow>
          let fileName = Base filePath;
              backupFile = Join backupPath fileName;
              w2 = snd (main_copyFile w1 filePath backupFile)
          in uploadToCloud w2 filePath fileName)"

text \<open>
  main.go has the download block twice, in \<^verbatim>\<open>checkCloudAndSync\<close> (temporary file
  \<^verbatim>\<open>objectName+".cloud"\<close>) and in \<^verbatim>\<open>syncFromCloud\<close> (temporary file
  \<^verbatim>\<open>objectName+".download"\<close>): \<^verbatim>\<open>FGetObject\<close> to the temporary path and, when that
  succeeded, \<^verbatim>\<open>backupAndReplace\<close> followed by \<^verbatim>\<open>os.Chtimes\<close>, whose result is dropped.
  \<open>fetchAndReplace\<close> is this block.
\<close>

definition fetchAndReplace ::
  "Globals \<Rightarrow> world \<Rightarrow> string \<Rightarrow> string \<Rightarrow> string \<Rightarrow> Time \<Rightarrow> world" where
  "fetchAndReplace g w objectName tempPath localPath cloudModTime =
     (case FGetObject w objectName tempPath of
        (Some err, w1) \<Rightarrow> w1
      | (None, w1) \<Rightarrow>
          snd (os_Chtimes (backupAndReplace g w1 localPath tempPath) localPath cloudModTime))"

definition checkCloudAndSync :: "Globals \<Rightarrow> world \<Rightarrow> string \<Rightarrow> world" where
  "checkCloudAndSync g w filePath =
     (case os_Stat w filePath of
        Inl err \<Rightarrow> w
      | Inr info \<Rightarrow>
          if fi_IsDir info then w
          else
            let objectName = Base filePath
            in (case StatObject w objectName of
                  Inr stat \<Rightarrow>
                    let cloudModTime = getCloudModTime stat;
                        localFileTime = fi_ModTime info;
                        diff = Sub cloudModTime localFileTime
                    in if diff > timeTolerance then
                         fetchAndReplace g w objectName
                           (Join (tempDir w) (objectName @ ''.cloud'')) filePath cloudModTime
                       else if diff < neg timeTolerance then main_backupAndUpload g w filePath
                       else w
                | Inl err \<Rightarrow> main_backupAndUpload g w filePath))"

text \<open>
  The body of the loop of \<^verbatim>\<open>syncFromCloud\<close>, for one item of the channel that
  \<^verbatim>\<open>ListObjects\<close> returns: an error (\<open>Inl\<close>) or the key of an object.
\<close>

definition syncFromCloud_object :: "Globals \<Rightarrow> world \<Rightarrow> error + string \<Rightarrow> world" where
  "syncFromCloud_object g w object =
     (case object of
        Inl err \<Rightarrow> w
      | Inr objectName \<Rightarrow>
          if \<not> shouldSyncFile objectName then w
          else
            let localPath = Join (watchPath g) (Base objectName);
                localStat = os_Stat w localPath
            in if (case localStat of Inl err \<Rightarrow> \<not> IsNotExist err | Inr localInfo \<Rightarrow> False)
               then w
               else (case StatObject w objectName of
                       Inl err \<Rightarrow> w
                     | Inr stat \<Rightarrow>
                         let cloudModTime = getCloudModTime stat
                         in if (case localStat of
                                  Inl err \<Rightarrow> True
                                | Inr localInfo \<Rightarrow>
                                    Sub cloudModTime (fi_ModTime localInfo) > timeTolerance)
                            then
                              fetchAndReplace g w objectName
                                (Join (tempDir w) (objectName @ ''.download''))
                                localPath cloudModTime
                            else w))"

definition syncFromCloud :: "Globals \<Rightarrow> world \<Rightarrow> (error + string) list \<Rightarrow> world" where
  "syncFromCloud g w objectCh = foldl (syncFromCloud_object g) w objectCh"

text \<open>
  \<^verbatim>\<open>localAndCloudSync\<close>; \<open>entries\<close> is the result of \<^verbatim>\<open>os.ReadDir(watchPath)\<close> (for each
  entry its name and whether it is a directory) and \<open>objectCh\<close> the listing of the bucket.
\<close>

definition localAndCloudSync ::
  "Globals \<Rightarrow> world \<Rightarrow> error + (string \<times> bool) list \<Rightarrow> (error + string) list \<Rightarrow> world" where
  "localAndCloudSync g w entries objectCh =
     (case entries of
        Inl err \<Rightarrow> w
      | Inr es \<Rightarrow>
          syncFromCloud g
            (foldl (\<lambda>w1 entry.
                      if snd entry then w1
                      else let path = Join (watchPath g) (fst entry)
                           in if shouldSyncFile path then checkCloudAndSync g w1 path else w1)
               w es)
            objectCh)"

text \<open>
  One iteration of the loop of \<^verbatim>\<open>main\<close>.  The input is what the \<^verbatim>\<open>select\<close> receives:
  a file-system event (with the reading of \<^verbatim>\<open>time.Now()\<close> taken for it), a watcher
  error, the expiry of the ten-second timer (with the directory listing and the bucket
  listing that the pass will read), or the cancellation of the context, on which \<^verbatim>\<open>main\<close>
  returns (\<open>None\<close>).  The state is the map \<^verbatim>\<open>lastEventTime\<close> and the world.
\<close>

datatype input =
    FsEvent Event Time
  | WatcherError
  | Tick "error + (string \<times> bool) list" "(error + string) list"
  | Done

definition main_step ::
  "Globals \<Rightarrow> input \<Rightarrow> (string \<rightharpoonup> Time) \<times> world \<Rightarrow> ((string \<rightharpoonup> Time) \<times> world) option" where
  "main_step g inp st =
     (case st of (lastEventTime, w) \<Rightarrow>
       (case inp of
          FsEvent event now \<Rightarrow>
            if ev_Op event AND (Write OR Create) \<noteq> 0 then
              if processName g \<noteq> [] \<and> isProcessRunning w (processName g) then
                Some (lastEventTime, w)
              else if shouldSyncFile (ev_Name event) \<and>
                      Dir (ev_Name event) = Clean (watchPath g) then
                (case lastEventTime (ev_Name event) of
                   Some lastTime \<Rightarrow>
                     if Sub now lastTime > eventCooldown then
                       Some (lastEventTime(ev_Name event \<mapsto> now),
                             checkCloudAndSync g w (ev_Name event))
                     else Some (lastEventTime, w)
                 | None \<Rightarrow>
                     Some (lastEventTime(ev_Name event \<mapsto> now),
                           checkCloudAndSync g w (ev_Name event)))
              else Some (lastEventTime, w)
            else Some (lastEventTime, w)
        | WatcherError \<Rightarrow> Some (lastEventTime, w)
        | Tick entries objectCh \<Rightarrow>
            if processName g \<noteq> [] \<and> \<not> isProcessRunning w (processName g) then
              Some (lastEventTime, localAndCloudSync g w entries objectCh)
            else Some (lastEventTime, w)
        | Done \<Rightarrow> None))"

section \<open>Derived notions\<close>

text \<open>
  The path of the copy that \<^verbatim>\<open>Syncer.createBackup\<close> writes for a file: the base name of
  the file, inside the folder that \<^verbatim>\<open>createTimestampedBackupDir\<close> names after the clock.
\<close>

definition backupFileOf :: "Syncer \<Rightarrow> world \<Rightarrow> string \<Rightarrow> string" where
  "backupFileOf s w filePath =
     Join (Join (s_backupDir s) (layout w (clock w))) (Base filePath)"

section \<open>Example configurations\<close>

text \<open>
  A small world for the concrete instances below: the watch directory \<open>/s\<close> holds the
  save file \<open>a.sav\<close>, last modified at the epoch; the bucket holds an object of that name
  whose \<open>Modtime\<close> metadata is 600 ms later; no call of the environment breaks.
\<close>

definition noFaults :: "call \<Rightarrow> bool" where
  "noFaults c = False"

definition remoteNewer :: object where
  "remoteNewer =
     \<lparr>obj_data = ''new'', obj_UserMetadata = [''Modtime'' \<mapsto> ''600000000''],
      obj_LastModified = 900000000\<rparr>"

definition exampleWorld :: world where
  "exampleWorld =
     \<lparr>fs = [''/s/a.sav'' \<mapsto> File ''old'' 0, ''/s'' \<mapsto> Directory 0],
      bucket = Some [''a.sav'' \<mapsto> remoteNewer],
      fails = noFaults, clock = 2000000000, tempDir = ''/tmp'',
      layout = (\<lambda>t. ''T''), processes = []\<rparr>"

definition exampleSyncer :: Syncer where
  "exampleSyncer =
     \<lparr>s_watchPath = ''/s'', s_backupDir = ''/b'', s_processName = ''game'',
      s_timeTolerance = 500 * Millisecond\<rparr>"

definition exampleGlobals :: Globals where
  "exampleGlobals = \<lparr>watchPath = ''/s'', processName = ''game'', backupDir = ''/b''\<rparr>"

definition exampleEvent :: Event where
  "exampleEvent = \<lparr>ev_Name = ''/s/a.sav'', ev_Op = Write\<rparr>"

definition exampleWatcher :: FileWatcher where
  "exampleWatcher =
     \<lparr>fw_watchPath = ''/s/'', fw_eventCooldown = 200 * Millisecond,
      fw_lastEventTime = Map.empty\<rparr>"

text \<open>Variants of the example world: one broken call, or another local file.\<close>

definition staleWorld :: world where
  "staleWorld = exampleWorld\<lparr>fails := (\<lambda>c. c = NetStatObject ''a.sav'')\<rparr>"

definition unstatableWorld :: world where
  "unstatableWorld = exampleWorld\<lparr>fails := (\<lambda>c. c = SysStat ''/s/a.sav'')\<rparr>"

definition mkdirFailsWorld :: world where
  "mkdirFailsWorld = exampleWorld\<lparr>fails := (\<lambda>c. c = SysMkdir ''/b/T'')\<rparr>"

definition backupFailsWorld :: world where
  "backupFailsWorld =
     exampleWorld\<lparr>fs := [''/s/a.sav'' \<mapsto> File ''mine'' 1500000000],
                   fails := (\<lambda>c. c = SysWrite ''/b/T/a.sav'')\<rparr>"

definition stampedWorld :: world where
  "stampedWorld =
     exampleWorld\<lparr>fs := [''/s/a.sav'' \<mapsto> File ''old'' 1700000000123456789],
                   bucket := Some Map.empty\<rparr>"

text \<open>A file last modified on 2300-01-01 00:00:00 UTC.\<close>

definition farFutureWorld :: world where
  "farFutureWorld =
     exampleWorld\<lparr>fs := [''/s/a.sav'' \<mapsto> File ''old'' 10413792000000000000]\<rparr>"

section \<open>Auxiliary facts\<close>

lemma HasSuffix_iff: "HasSuffix s suffix = (\<exists>stem. s = stem @ suffix)"
proof
  assume h: "HasSuffix s suffix"
  have "s = take (length s - length suffix) s @ drop (length s - length suffix) s"
    by simp
  with h show "\<exists>stem. s = stem @ suffix"
    unfolding HasSuffix_def by metis
next
  assume "\<exists>stem. s = stem @ suffix"
  then show "HasSuffix s suffix"
    by (auto simp: HasSuffix_def)
qed

lemma digitVal_digit: "0 \<le> d \<Longrightarrow> d < 10 \<Longrightarrow> digitVal (digit d) = Some d"
  by (simp add: digitVal_def digit_def Let_def)

lemma parseDigits_snoc:
  "parseDigits acc (xs @ [c]) =
     (case parseDigits acc xs of
        None \<Rightarrow> None
      | Some a \<Rightarrow> (case digitVal c of None \<Rightarrow> None | Some d \<Rightarrow> Some (a * 10 + d)))"
  by (induction xs arbitrary: acc) (auto split: option.splits)

lemma digits_nonempty: "digits n \<noteq> []"
  by (subst digits.simps) simp

lemma parseDigits_digits: "0 \<le> n \<Longrightarrow> parseDigits 0 (digits n) = Some n"
proof (induction n rule: digits.induct)
  case (1 n)
  show ?case
  proof (cases "n < 10")
    case True
    with "1.prems" show ?thesis
      by (subst digits.simps) (simp add: digitVal_digit)
  next
    case False
    with "1.prems" have "0 \<le> n div 10" by simp
    with False "1.IH" have ih: "parseDigits 0 (digits (n div 10)) = Some (n div 10)"
      by simp
    have "0 \<le> n mod 10" "n mod 10 < 10" by simp_all
    then have dv: "digitVal (digit (n mod 10)) = Some (n mod 10)"
      by (rule digitVal_digit)
    from False show ?thesis
      by (subst digits.simps) (simp add: parseDigits_snoc ih dv)
  qed
qed

lemma digit_not_sign: "0 \<le> d \<Longrightarrow> d < 10 \<Longrightarrow> digit d \<noteq> CHR ''-'' \<and> digit d \<noteq> CHR ''+''"
  by (auto simp: digit_def dest: arg_cong [where f = "of_char :: char \<Rightarrow> int"])

lemma hd_digits_not_sign:
  "0 \<le> n \<Longrightarrow> hd (digits n) \<noteq> CHR ''-'' \<and> hd (digits n) \<noteq> CHR ''+''"
proof (induction n rule: digits.induct)
  case (1 n)
  show ?case
  proof (cases "n < 10")
    case True
    with "1.prems" show ?thesis
      by (subst (1 2) digits.simps) (simp add: digit_not_sign)
  next
    case False
    with "1.prems" have "0 \<le> n div 10" by simp
    with False "1.IH" have ih: "hd (digits (n div 10)) \<noteq> CHR ''-'' \<and> hd (digits (n div 10)) \<noteq> CHR ''+''"
      by simp
    from False ih show ?thesis
      by (subst (1 2) digits.simps) (simp add: digits_nonempty)
  qed
qed

lemma ParseInt_Sprintf_d:
  assumes "minDuration \<le> n" and "n \<le> maxDuration"
  shows "ParseInt (Sprintf_d n) = Inr n"
proof (cases "n < 0")
  case True
  then have "0 \<le> - n" by simp
  then have "parseDigits 0 (digits (- n)) = Some (- n)"
    by (rule parseDigits_digits)
  with True assms show ?thesis
    by (simp add: ParseInt_def Sprintf_d_def Let_def digits_nonempty minDuration_def)
next
  case False
  then have n0: "0 \<le> n" by simp
  then have p: "parseDigits 0 (digits n) = Some n"
    by (rule parseDigits_digits)
  from n0 have "hd (digits n) \<noteq> CHR ''-'' \<and> hd (digits n) \<noteq> CHR ''+''"
    by (rule hd_digits_not_sign)
  with False assms p show ?thesis
    by (simp add: ParseInt_def Sprintf_d_def Let_def digits_nonempty maxDuration_def)
qed

lemma ParseInt_Nil: "ParseInt [] = Inl ErrSyntax"
  by (simp add: ParseInt_def)

lemma wrap64_id: "minDuration \<le> x \<Longrightarrow> x \<le> maxDuration \<Longrightarrow> wrap64 x = x"
  by (simp add: wrap64_def minDuration_def maxDuration_def)

lemma neg_nonneg: "0 \<le> d \<Longrightarrow> d \<le> maxDuration \<Longrightarrow> neg d = - d"
  by (simp add: neg_def wrap64_def maxDuration_def)

lemma Sub_swap_gt:
  assumes "0 \<le> tol" and "tol < maxDuration"
  shows "(Sub r l > tol) = (Sub l r < - tol)"
  using assms by (auto simp: Sub_def minDuration_def maxDuration_def)

lemma Sub_swap_lt:
  assumes "0 \<le> tol" and "tol < maxDuration"
  shows "(Sub r l < - tol) = (Sub l r > tol)"
  using assms by (auto simp: Sub_def minDuration_def maxDuration_def)

lemma timeTolerance_bounds: "0 \<le> timeTolerance \<and> timeTolerance < maxDuration"
  by (simp add: timeTolerance_def Millisecond_def maxDuration_def)

lemma S3Client_Stat_ModTime:
  "S3Client_Stat w n = Inr cloudInfo \<Longrightarrow> StatObject w n = Inr stat \<Longrightarrow>
     sfi_ModTime cloudInfo = getCloudModTime stat"
  by (auto simp: S3Client_Stat_def extractModTime_def getCloudModTime_def Let_def
      split: sum.splits)

lemma os_Stat_bucket [simp]: "os_Stat (w\<lparr>bucket := b\<rparr>) path = os_Stat w path"
  by (simp add: os_Stat_def)

lemma FPutObject_success:
  assumes "fs w filePath = Some (File data t)" and "\<not> fails w (NetPutObject objectName)"
    and "bucket w = Some objs"
  shows "FPutObject w objectName filePath userMeta =
     (None, w\<lparr>bucket := Some (objs(objectName \<mapsto>
        \<lparr>obj_data = data, obj_UserMetadata = (\<lambda>k. userMeta (''X-Amz-Meta-'' @ k)),
         obj_LastModified = clock w\<rparr>))\<rparr>)"
  using assms by (simp add: FPutObject_def)

lemma getCloudModTime_eq_extractModTime: "getCloudModTime stat = extractModTime stat"
  by (simp add: getCloudModTime_def extractModTime_def Let_def split: sum.splits)

lemma extractModTime_prefers_metadata:
  "extractModTime stat =
     (case ParseInt (lookupMeta (oi_UserMetadata stat) ''Modtime'') of
        Inr ts \<Rightarrow> ts
      | Inl err \<Rightarrow> oi_LastModified stat)"
  by (simp add: extractModTime_def Let_def ParseInt_Nil time_Unix_def split: sum.splits)

lemma StatObject_after_put:
  assumes "\<not> fails w (NetStatObject objectName)"
  shows "StatObject (w\<lparr>bucket := Some (objs(objectName \<mapsto> obj))\<rparr>) objectName =
     Inr \<lparr>oi_Key = objectName, oi_LastModified = obj_LastModified obj,
          oi_Size = length (obj_data obj), oi_UserMetadata = obj_UserMetadata obj\<rparr>"
  using assms by (simp add: StatObject_def)

lemma extractModTime_stamped:
  assumes "minDuration \<le> t" and "t \<le> maxDuration"
    and "oi_UserMetadata stat ''Modtime'' = Some (Sprintf_d t)"
  shows "extractModTime stat = t"
  using assms
  by (simp add: extractModTime_prefers_metadata lookupMeta_def ParseInt_Sprintf_d)

lemma S3Client_Upload_None:
  assumes "S3Client_Upload w localPath objectName = (None, w1)"
    and "fs w localPath = Some (File data t)"
  shows "\<exists>objs. bucket w = Some objs \<and>
     w1 = w\<lparr>bucket := Some (objs(objectName \<mapsto>
        \<lparr>obj_data = data,
         obj_UserMetadata =
           (\<lambda>k. [''X-Amz-Meta-Modtime'' \<mapsto> Sprintf_d (UnixNano t),
                  ''X-Amz-Meta-ModtimeString'' \<mapsto> layout w t] (''X-Amz-Meta-'' @ k)),
         obj_LastModified = clock w\<rparr>))\<rparr>"
  using assms
  by (auto simp: S3Client_Upload_def os_Stat_def FPutObject_def Let_def
      split: if_splits option.splits)

lemma main_step_process_guard:
  assumes "processName g \<noteq> []"
  shows "main_step g (Tick entries objectCh) (lastEventTime, w) =
           (if isProcessRunning w (processName g) then Some (lastEventTime, w)
            else Some (lastEventTime, localAndCloudSync g w entries objectCh)) \<and>
         (isProcessRunning w (processName g) \<longrightarrow>
            main_step g (FsEvent event now) (lastEventTime, w) = Some (lastEventTime, w))"
  using assms by (simp add: main_step_def)

lemma remote_stat_error_uploads:
  assumes "os_Stat w filePath = Inr info" and "\<not> fi_IsDir info"
    and "StatObject w (Base filePath) = Inl err"
  shows "SyncFile s w filePath = backupAndUpload s w filePath (Base filePath) \<and>
         checkCloudAndSync g w filePath = main_backupAndUpload g w filePath"
  using assms by (simp add: SyncFile_def checkCloudAndSync_def S3Client_Stat_def)

section \<open>The sync actions of the Syncer\<close>

text \<open>
  What \<^verbatim>\<open>createBackup\<close>, \<^verbatim>\<open>backupAndUpload\<close> and \<^verbatim>\<open>downloadAndReplace\<close> of package
  sync do to the local file, the backup copy and the bucket, for every world.  The paths
  of the backup copy, of the temporary file and of the local file are assumed distinct.
\<close>

lemma createBackup_None:
  assumes "createBackup s w filePath = (None, w')"
  shows "\<exists>data t. fs w filePath = Some (File data t) \<and>
           fs w' (backupFileOf s w filePath) = Some (File data (clock w))"
  using assms
  by (auto simp: createBackup_def createTimestampedBackupDir_def ensureDir_def backupFileOf_def
      copyFile_def os_Stat_def os_MkdirAll_def os_Mkdir_def os_ReadFile_def os_WriteFile_def
      os_Create_def IsNotExist_def Let_def
      split: if_splits option.splits node.splits sum.splits prod.splits)

lemma createBackup_env:
  assumes "createBackup s w filePath = (r, w')"
  shows "bucket w' = bucket w \<and> fails w' = fails w \<and> clock w' = clock w \<and>
         tempDir w' = tempDir w \<and> layout w' = layout w"
  using assms
  by (auto simp: createBackup_def createTimestampedBackupDir_def ensureDir_def
      copyFile_def os_Stat_def os_MkdirAll_def os_Mkdir_def os_ReadFile_def os_WriteFile_def
      os_Create_def IsNotExist_def Let_def
      split: if_splits option.splits node.splits sum.splits prod.splits)

lemma createBackup_keeps_file:
  assumes "createBackup s w filePath = (r, w')"
    and "fs w filePath = Some (File data t)"
    and "backupFileOf s w filePath \<noteq> filePath"
  shows "fs w' filePath = Some (File data t)"
  using assms
  by (auto simp: createBackup_def createTimestampedBackupDir_def ensureDir_def backupFileOf_def
      copyFile_def os_Stat_def os_MkdirAll_def os_Mkdir_def os_ReadFile_def os_WriteFile_def
      os_Create_def IsNotExist_def Let_def
      split: if_splits option.splits node.splits sum.splits prod.splits)


lemma S3Client_Upload_fs:
  assumes "S3Client_Upload w localPath objectName = (r, w')"
  shows "fs w' = fs w \<and> (r \<noteq> None \<longrightarrow> w' = w)"
  using assms
  by (auto simp: S3Client_Upload_def FPutObject_def Let_def
      split: sum.splits option.splits node.splits if_splits)

lemma S3Client_Upload_unstatable:
  assumes "os_Stat w localPath = Inl e"
  shows "S3Client_Upload w localPath objectName = (Some (Wrapf ''failed to stat file'' e), w)"
  using assms by (simp add: S3Client_Upload_def)

lemma backupAndUpload_safe:
  assumes f: "fs w filePath = Some (File data t)"
    and r: "backupAndUpload s w filePath objectName = (r, w')"
    and ne: "backupFileOf s w filePath \<noteq> filePath"
  shows "fs w' filePath = Some (File data t) \<and>
         (bucket w' \<noteq> bucket w \<longrightarrow>
            fs w' (backupFileOf s w filePath) = Some (File data (clock w)))"
proof (cases "fileExists w filePath")
  case False
  then obtain e where "os_Stat w filePath = Inl e"
    by (auto simp: fileExists_def split: sum.splits)
  then have "S3Client_Upload w filePath objectName = (Some (Wrapf ''failed to stat file'' e), w)"
    by (rule S3Client_Upload_unstatable)
  with False r have "w' = w"
    by (simp add: backupAndUpload_def)
  with f show ?thesis by simp
next
  case True
  obtain rb w1 where b: "createBackup s w filePath = (rb, w1)"
    by (cases "createBackup s w filePath")
  from createBackup_keeps_file [OF b f ne] have k: "fs w1 filePath = Some (File data t)" .
  from createBackup_env [OF b] have env: "bucket w1 = bucket w" by simp
  show ?thesis
  proof (cases rb)
    case (Some e)
    with True b r have "w' = w1"
      by (simp add: backupAndUpload_def)
    with k env show ?thesis by simp
  next
    case None
    with b createBackup_None [of s w filePath w1] f
    have bk: "fs w1 (backupFileOf s w filePath) = Some (File data (clock w))"
      by auto
    obtain ru w2 where u: "S3Client_Upload w1 filePath objectName = (ru, w2)"
      by (cases "S3Client_Upload w1 filePath objectName")
    from S3Client_Upload_fs [OF u] have same: "fs w2 = fs w1" by simp
    from True b None u r have "w' = w2"
      by (auto simp: backupAndUpload_def split: option.splits)
    with same k bk show ?thesis by simp
  qed
qed

lemma S3Client_Download_result:
  assumes "S3Client_Download w objectName path = (r, w')"
  shows "bucket w' = bucket w \<and> fails w' = fails w \<and>
         (r \<noteq> None \<longrightarrow> w' = w) \<and>
         (r = None \<longrightarrow>
            (\<exists>objs obj. bucket w = Some objs \<and> objs objectName = Some obj \<and>
               fs w' = (fs w)(path \<mapsto> File (obj_data obj) (clock w))))"
  using assms
  by (auto simp: S3Client_Download_def FGetObject_def
      split: option.splits node.splits if_splits)

lemma downloadAndReplace_safe:
  assumes f: "fs w localPath = Some (File data t)" and st: "\<not> fails w (SysStat localPath)"
    and r: "downloadAndReplace s w objectName localPath modTime = (r, w')"
    and ne: "backupFileOf s w localPath \<noteq> localPath"
    and nt: "Join (tempDir w) (objectName @ ''.download'') \<noteq> localPath"
    and nb: "Join (tempDir w) (objectName @ ''.download'') \<noteq> backupFileOf s w localPath"
  shows "bucket w' = bucket w \<and>
         (fs w' localPath \<noteq> Some (File data t) \<longrightarrow>
            fs w' (backupFileOf s w localPath) = Some (File data (clock w)))"
proof -
  let ?tmp = "Join (tempDir w) (objectName @ ''.download'')"
  from f st have ex: "fileExists w localPath"
    by (simp add: fileExists_def os_Stat_def)
  obtain rb w1 where b: "createBackup s w localPath = (rb, w1)"
    by (cases "createBackup s w localPath")
  from createBackup_keeps_file [OF b f ne] have k: "fs w1 localPath = Some (File data t)" .
  from createBackup_env [OF b] have env: "bucket w1 = bucket w" "tempDir w1 = tempDir w"
    by simp_all
  show ?thesis
  proof (cases rb)
    case (Some e)
    with ex b r have "w' = w1"
      by (simp add: downloadAndReplace_def)
    with k env show ?thesis by simp
  next
    case None
    with b createBackup_None [of s w localPath w1] f
    have bk: "fs w1 (backupFileOf s w localPath) = Some (File data (clock w))"
      by auto
    obtain rd w2 where d: "S3Client_Download w1 objectName ?tmp = (rd, w2)"
      by (cases "S3Client_Download w1 objectName ?tmp")
    note dr = S3Client_Download_result [OF d]
    show ?thesis
    proof (cases rd)
      case (Some e)
      with dr have "w2 = w1" by simp
      with ex b None d Some r have "w' = w1"
        by (simp add: downloadAndReplace_def Let_def env)
      with k env show ?thesis by simp
    next
      case rdNone: None
      with dr have "\<exists>rdata. fs w2 = (fs w1)(?tmp \<mapsto> File rdata (clock w1))"
        by auto
      then obtain rdata where w2: "fs w2 = (fs w1)(?tmp \<mapsto> File rdata (clock w1))"
        by blast
      from dr have b2: "bucket w2 = bucket w1"
        by simp
      from w2 bk nb have bk2: "fs w2 (backupFileOf s w localPath) = Some (File data (clock w))"
        by simp
      from ex b None d rdNone r
      have "bucket w' = bucket w2 \<and>
          fs w' (backupFileOf s w localPath) = fs w2 (backupFileOf s w localPath)"
        using ne nb
        by (auto simp: downloadAndReplace_def Let_def env copyFile_def os_ReadFile_def
            os_WriteFile_def os_Create_def os_Remove_def os_Chtimes_def
            split: if_splits option.splits node.splits sum.splits prod.splits)
      with bk2 b2 env show ?thesis by simp
    qed
  qed
qed

lemma SyncFile_no_loss_without_backup:
  assumes f: "fs w filePath = Some (File data t)"
    and r: "SyncFile s w filePath = (r, w')"
    and ne: "backupFileOf s w filePath \<noteq> filePath"
    and nt: "Join (tempDir w) (Base filePath @ ''.download'') \<noteq> filePath"
    and nb: "Join (tempDir w) (Base filePath @ ''.download'') \<noteq> backupFileOf s w filePath"
    and ch: "bucket w' \<noteq> bucket w \<or> fs w' filePath \<noteq> Some (File data t)"
  shows "fs w' (backupFileOf s w filePath) = Some (File data (clock w))"
proof (cases "fails w (SysStat filePath)")
  case True
  with r have "w' = w"
    by (simp add: SyncFile_def os_Stat_def)
  with f ch show ?thesis by simp
next
  case False
  with f have st: "os_Stat w filePath = Inr \<lparr>fi_ModTime = t, fi_IsDir = False\<rparr>"
    by (simp add: os_Stat_def)
  from r st consider
      (up) "backupAndUpload s w filePath (Base filePath) = (r, w')"
    | (down) modTime where "downloadAndReplace s w (Base filePath) filePath modTime = (r, w')"
    | (noop) "w' = w"
    by (auto simp: SyncFile_def Let_def split: sum.splits if_splits)
  then show ?thesis
  proof cases
    case up
    from backupAndUpload_safe [OF f up ne] ch show ?thesis by auto
  next
    case down
    from downloadAndReplace_safe [OF f False down ne nt nb] ch show ?thesis by auto
  next
    case noop
    with f ch show ?thesis by simp
  qed
qed


lemma copyFile_None:
  assumes "copyFile w src dst = (None, w')"
  shows "\<exists>d t. fs w src = Some (File d t) \<and> w' = w\<lparr>fs := (fs w)(dst \<mapsto> File d (clock w))\<rparr>"
  using assms
  by (auto simp: copyFile_def os_ReadFile_def os_WriteFile_def os_Create_def
      split: if_splits option.splits node.splits sum.splits prod.splits)

lemma os_Remove_result:
  assumes "os_Remove w p = (r, w')"
  shows "fails w' = fails w \<and> (\<forall>q. q \<noteq> p \<longrightarrow> fs w' q = fs w q) \<and>
         (\<not> fails w (SysRemove p) \<longrightarrow> fs w' p = None)"
  using assms
  by (auto simp: os_Remove_def split: if_splits option.splits)

lemma os_Chtimes_file:
  assumes "os_Chtimes w p m = (r, w')" and "fs w p = Some (File d t0)"
  shows "(\<exists>t'. fs w' p = Some (File d t') \<and> (\<not> fails w (SysChtimes p) \<longrightarrow> t' = m)) \<and>
         (\<forall>q. q \<noteq> p \<longrightarrow> fs w' q = fs w q)"
  using assms
  by (auto simp: os_Chtimes_def split: if_splits)

lemma downloadAndReplace_steps:
  assumes f: "fs w localPath = Some (File data t)"
    and r: "downloadAndReplace s w objectName localPath modTime = (r, w')"
    and ne: "backupFileOf s w localPath \<noteq> localPath"
    and nt: "Join (tempDir w) (objectName @ ''.download'') \<noteq> localPath"
  shows "(\<forall>e. r = Some (Wrapf ''failed to create backup'' e) \<or>
              r = Some (Wrapf ''failed to download'' e) \<longrightarrow>
           fs w' localPath = Some (File data t)) \<and>
         (r = None \<longrightarrow>
           (\<exists>objs obj t'. bucket w = Some objs \<and> objs objectName = Some obj \<and>
              fs w' localPath = Some (File (obj_data obj) t') \<and>
              (\<not> fails w (SysChtimes localPath) \<longrightarrow> t' = modTime) \<and>
              (\<not> fails w (SysRemove (Join (tempDir w) (objectName @ ''.download''))) \<longrightarrow>
                 fs w' (Join (tempDir w) (objectName @ ''.download'')) = None)))"
proof -
  let ?tmp = "Join (tempDir w) (objectName @ ''.download'')"
  obtain rb w1 where
    b: "(if fileExists w localPath then createBackup s w localPath else (None, w)) = (rb, w1)"
    by (cases "if fileExists w localPath then createBackup s w localPath else (None, w)")
  have k: "fs w1 localPath = Some (File data t)"
    using b f ne createBackup_keeps_file [of s w localPath rb w1 data t]
    by (auto split: if_splits)
  have env: "bucket w1 = bucket w" "tempDir w1 = tempDir w" "fails w1 = fails w"
    using b createBackup_env [of s w localPath rb w1]
    by (auto split: if_splits)
  show ?thesis
  proof (cases rb)
    case (Some e)
    with b r have "w' = w1" "r = Some (Wrapf ''failed to create backup'' e)"
      by (simp_all add: downloadAndReplace_def)
    with k show ?thesis by simp
  next
    case None
    obtain rd w2 where d: "S3Client_Download w1 objectName ?tmp = (rd, w2)"
      by (cases "S3Client_Download w1 objectName ?tmp")
    note dr = S3Client_Download_result [OF d]
    show ?thesis
    proof (cases rd)
      case (Some e)
      with dr have "w2 = w1" by simp
      with b None d Some r have "w' = w1" "r = Some (Wrapf ''failed to download'' e)"
        by (simp_all add: downloadAndReplace_def Let_def env)
      with k show ?thesis by simp
    next
      case rdNone: None
      with dr obtain objs obj where
        o: "bucket w1 = Some objs" "objs objectName = Some obj"
          "fs w2 = (fs w1)(?tmp \<mapsto> File (obj_data obj) (clock w1))"
        by auto
      from dr have e2: "fails w2 = fails w1" by simp
      obtain rc w3 where c: "copyFile w2 ?tmp localPath = (rc, w3)"
        by (cases "copyFile w2 ?tmp localPath")
      show ?thesis
      proof (cases rc)
        case (Some e)
        with b None d rdNone c r
        have "r = Some (Wrapf ''failed to replace local file'' e)"
          by (simp add: downloadAndReplace_def Let_def env)
        then show ?thesis by simp
      next
        case rcNone: None
        from c rcNone copyFile_None [of w2 ?tmp localPath w3] o(3)
        have w3: "w3 = w2\<lparr>fs := (fs w2)(localPath \<mapsto> File (obj_data obj) (clock w2))\<rparr>"
          by auto
        obtain rr w4 where rm: "os_Remove w3 ?tmp = (rr, w4)"
          by (cases "os_Remove w3 ?tmp")
        obtain rt w5 where ct: "os_Chtimes w4 localPath modTime = (rt, w5)"
          by (cases "os_Chtimes w4 localPath modTime")
        from b None d rdNone c rcNone rm ct r have res: "r = None" "w' = w5"
          by (auto simp: downloadAndReplace_def Let_def env split: option.splits)
        note rmr = os_Remove_result [OF rm]
        from rmr nt w3 have l4: "fs w4 localPath = Some (File (obj_data obj) (clock w2))"
          by simp
        from rmr w3 e2 env have f4: "fails w4 = fails w" by simp
        from rmr w3 e2 env have t4: "\<not> fails w (SysRemove ?tmp) \<longrightarrow> fs w4 ?tmp = None"
          by simp
        note ctr = os_Chtimes_file [OF ct l4]
        from ctr f4 obtain t' where
          l5: "fs w5 localPath = Some (File (obj_data obj) t')"
            "\<not> fails w (SysChtimes localPath) \<longrightarrow> t' = modTime"
          by auto
        from ctr nt t4 have t5: "\<not> fails w (SysRemove ?tmp) \<longrightarrow> fs w5 ?tmp = None"
          by simp
        from res l5 t5 o(1,2) env(1) show ?thesis
          by auto
      qed
    qed
  qed
qed

section \<open>The claims\<close>

text \<open>
  C1.  Single-file decision when the local file exists and the remote stat succeeds.
  With \<open>diff = remote time - local time\<close> (as \<^verbatim>\<open>Time.Sub\<close> computes it): if
  \<open>diff > tolerance\<close> the file is downloaded, if \<open>diff < - tolerance\<close> it is uploaded, and
  for \<open>- tolerance \<le> diff \<le> tolerance\<close>, both ends included, nothing is done.  The rule is
  antisymmetric: the condition for a download holds for a pair of times exactly when the
  condition for an upload holds for the swapped pair, and conversely.  This is stated for
  \<^verbatim>\<open>Syncer.SyncFile\<close>, whose tolerance is a field (taken to be non-negative and below the
  largest duration), and for \<^verbatim>\<open>checkCloudAndSync\<close> of main.go, whose tolerance is the
  constant 500 ms.
\<close>

theorem conflict_resolution:
  assumes "os_Stat w filePath = Inr info" and "\<not> fi_IsDir info"
    and "S3Client_Stat w (Base filePath) = Inr cloudInfo"
    and "StatObject w (Base filePath) = Inr stat"
    and "0 \<le> s_timeTolerance s" and "s_timeTolerance s < maxDuration"
  shows
    "(let tol = s_timeTolerance s; localTime = fi_ModTime info;
          cloudTime = sfi_ModTime cloudInfo; diff = Sub cloudTime localTime
      in (diff > tol \<longrightarrow>
            SyncFile s w filePath = downloadAndReplace s w (Base filePath) filePath cloudTime) \<and>
         (diff < - tol \<longrightarrow>
            SyncFile s w filePath = backupAndUpload s w filePath (Base filePath)) \<and>
         (- tol \<le> diff \<and> diff \<le> tol \<longrightarrow> SyncFile s w filePath = (None, w)) \<and>
         (diff > tol) = (Sub localTime cloudTime < - tol) \<and>
         (diff < - tol) = (Sub localTime cloudTime > tol)) \<and>
     (let tol = timeTolerance; localTime = fi_ModTime info;
          cloudTime = getCloudModTime stat; diff = Sub cloudTime localTime
      in (diff > tol \<longrightarrow>
            checkCloudAndSync g w filePath =
              fetchAndReplace g w (Base filePath)
                (Join (tempDir w) (Base filePath @ ''.cloud'')) filePath cloudTime) \<and>
         (diff < - tol \<longrightarrow> checkCloudAndSync g w filePath = main_backupAndUpload g w filePath) \<and>
         (- tol \<le> diff \<and> diff \<le> tol \<longrightarrow> checkCloudAndSync g w filePath = w) \<and>
         (diff > tol) = (Sub localTime cloudTime < - tol) \<and>
         (diff < - tol) = (Sub localTime cloudTime > tol))"
proof -
  let ?tol = "s_timeTolerance s"
  have n1: "neg ?tol = - ?tol"
    using assms(5,6) by (simp add: neg_nonneg)
  have n2: "neg timeTolerance = - timeTolerance"
    using timeTolerance_bounds by (simp add: neg_nonneg)
  have syncer:
    "SyncFile s w filePath =
       (let diff = Sub (sfi_ModTime cloudInfo) (fi_ModTime info)
        in if diff > ?tol then
             downloadAndReplace s w (Base filePath) filePath (sfi_ModTime cloudInfo)
           else if diff < - ?tol then backupAndUpload s w filePath (Base filePath)
           else (None, w))"
    using assms(1,2,3) by (simp add: SyncFile_def Let_def n1)
  have main:
    "checkCloudAndSync g w filePath =
       (let diff = Sub (getCloudModTime stat) (fi_ModTime info)
        in if diff > timeTolerance then
             fetchAndReplace g w (Base filePath)
               (Join (tempDir w) (Base filePath @ ''.cloud'')) filePath (getCloudModTime stat)
           else if diff < - timeTolerance then main_backupAndUpload g w filePath
           else w)"
    using assms(1,2,4) by (simp add: checkCloudAndSync_def Let_def n2)
  have a1: "(Sub (sfi_ModTime cloudInfo) (fi_ModTime info) > ?tol) =
            (Sub (fi_ModTime info) (sfi_ModTime cloudInfo) < - ?tol)"
    using assms(5,6) by (rule Sub_swap_gt)
  have a2: "(Sub (sfi_ModTime cloudInfo) (fi_ModTime info) < - ?tol) =
            (Sub (fi_ModTime info) (sfi_ModTime cloudInfo) > ?tol)"
    using assms(5,6) by (rule Sub_swap_lt)
  have b1: "(Sub (getCloudModTime stat) (fi_ModTime info) > timeTolerance) =
            (Sub (fi_ModTime info) (getCloudModTime stat) < - timeTolerance)"
    using timeTolerance_bounds by (simp add: Sub_swap_gt)
  have b2: "(Sub (getCloudModTime stat) (fi_ModTime info) < - timeTolerance) =
            (Sub (fi_ModTime info) (getCloudModTime stat) > timeTolerance)"
    using timeTolerance_bounds by (simp add: Sub_swap_lt)
  have t0: "0 \<le> timeTolerance" using timeTolerance_bounds by simp
  let ?d = "Sub (sfi_ModTime cloudInfo) (fi_ModTime info)"
  let ?e = "Sub (getCloudModTime stat) (fi_ModTime info)"
  have c1: "?d > ?tol \<Longrightarrow>
      SyncFile s w filePath =
        downloadAndReplace s w (Base filePath) filePath (sfi_ModTime cloudInfo)"
    by (simp add: syncer Let_def)
  have c2: "?d < - ?tol \<Longrightarrow> SyncFile s w filePath = backupAndUpload s w filePath (Base filePath)"
    using assms(5) by (simp add: syncer Let_def)
  have c3: "- ?tol \<le> ?d \<Longrightarrow> ?d \<le> ?tol \<Longrightarrow> SyncFile s w filePath = (None, w)"
    by (simp add: syncer Let_def)
  have d1: "?e > timeTolerance \<Longrightarrow>
      checkCloudAndSync g w filePath =
        fetchAndReplace g w (Base filePath)
          (Join (tempDir w) (Base filePath @ ''.cloud'')) filePath (getCloudModTime stat)"
    by (simp add: main Let_def)
  have d2: "?e < - timeTolerance \<Longrightarrow>
      checkCloudAndSync g w filePath = main_backupAndUpload g w filePath"
    using t0 by (simp add: main Let_def)
  have d3: "- timeTolerance \<le> ?e \<Longrightarrow> ?e \<le> timeTolerance \<Longrightarrow>
      checkCloudAndSync g w filePath = w"
    by (simp add: main Let_def)
  show ?thesis
    unfolding Let_def using c1 c2 c3 d1 d2 d3 a1 a2 b1 b2 by blast
qed

theorem conflict_resolution_witness:
  "os_Stat exampleWorld ''/s/a.sav'' = Inr \<lparr>fi_ModTime = 0, fi_IsDir = False\<rparr> \<and>
   S3Client_Stat exampleWorld (Base ''/s/a.sav'') =
     Inr \<lparr>sfi_Name = ''a.sav'', sfi_ModTime = 600 * Millisecond, sfi_Size = 3\<rparr> \<and>
   0 \<le> s_timeTolerance exampleSyncer \<and> s_timeTolerance exampleSyncer < maxDuration \<and>
   SyncFile exampleSyncer exampleWorld ''/s/a.sav'' =
     downloadAndReplace exampleSyncer exampleWorld ''a.sav'' ''/s/a.sav'' (600 * Millisecond) \<and>
   checkCloudAndSync exampleGlobals exampleWorld ''/s/a.sav'' =
     fetchAndReplace exampleGlobals exampleWorld ''a.sav'' ''/tmp/a.sav.cloud'' ''/s/a.sav''
       (600 * Millisecond)"
proof -
  let ?info = "\<lparr>fi_ModTime = 0, fi_IsDir = False\<rparr>"
  let ?cloudInfo = "\<lparr>sfi_Name = ''a.sav'', sfi_ModTime = 600000000, sfi_Size = 3\<rparr>"
  let ?stat = "\<lparr>oi_Key = ''a.sav'', oi_LastModified = 900000000, oi_Size = 3,
                oi_UserMetadata = [''Modtime'' \<mapsto> ''600000000'']\<rparr>"
  have base: "Base ''/s/a.sav'' = ''a.sav''"
    by (simp add: Base_def isSlash_def)
  have h1: "os_Stat exampleWorld ''/s/a.sav'' = Inr ?info"
    by (simp add: os_Stat_def exampleWorld_def noFaults_def)
  have h2: "\<not> fi_IsDir ?info"
    by simp
  have h4: "StatObject exampleWorld (Base ''/s/a.sav'') = Inr ?stat"
    by (simp add: base StatObject_def exampleWorld_def noFaults_def remoteNewer_def)
  have parse: "ParseInt ''600000000'' = Inr 600000000"
    by (simp add: ParseInt_def digitVal_def Let_def)
  have h3: "S3Client_Stat exampleWorld (Base ''/s/a.sav'') = Inr ?cloudInfo"
    by (simp add: S3Client_Stat_def h4 extractModTime_def lookupMeta_def parse time_Unix_def)
  have h5: "0 \<le> s_timeTolerance exampleSyncer"
    by (simp add: exampleSyncer_def Millisecond_def)
  have h6: "s_timeTolerance exampleSyncer < maxDuration"
    by (simp add: exampleSyncer_def Millisecond_def maxDuration_def)
  have tmp: "Join (tempDir exampleWorld) ''a.sav.cloud'' = ''/tmp/a.sav.cloud''"
    by (simp add: exampleWorld_def Join_def Clean_def isSlash_def)
  have cm: "getCloudModTime ?stat = 600000000"
    by (simp add: getCloudModTime_def lookupMeta_def parse time_Unix_def)
  have d: "Sub 600000000 0 = 600000000"
    by (simp add: Sub_def minDuration_def maxDuration_def)
  note c = conflict_resolution [OF h1 h2 h3 h4 h5 h6, of exampleGlobals, unfolded Let_def]
  have s: "SyncFile exampleSyncer exampleWorld ''/s/a.sav'' =
      downloadAndReplace exampleSyncer exampleWorld ''a.sav'' ''/s/a.sav'' 600000000"
    using c by (simp add: base d exampleSyncer_def Millisecond_def)
  have m: "checkCloudAndSync exampleGlobals exampleWorld ''/s/a.sav'' =
      fetchAndReplace exampleGlobals exampleWorld ''a.sav'' ''/tmp/a.sav.cloud'' ''/s/a.sav''
        600000000"
    using c by (simp add: base cm d tmp timeTolerance_def Millisecond_def)
  from h1 h3 h5 h6 s m show ?thesis
    by (simp add: Millisecond_def)
qed

text \<open>
  C2.  Before a sync action uploads a file or overwrites a local file by a download, a
  backup copy with the prior local bytes is made, and the action does not proceed when
  the backup cannot be made.  \<^verbatim>\<open>Syncer.SyncFile\<close> keeps this rule in every world
  (lemma \<open>SyncFile_no_loss_without_backup\<close>: when it has changed the bucket or the local
  file, the backup copy holds the prior local bytes).  \<^verbatim>\<open>backupAndUpload\<close> of main.go
  does not: it goes on to upload when the copy into the backup folder has failed.  In
  \<open>backupFailsWorld\<close> the local file is 900 ms newer than the remote object and writing
  the backup file breaks (as on a full disk): \<^verbatim>\<open>checkCloudAndSync\<close> leaves the backup
  folder with an empty file in it, and the object holds the local content, uploaded with
  no copy of it made.  \<^verbatim>\<open>Syncer.SyncFile\<close> on the same input returns an error and
  leaves the bucket as it was.
\<close>

theorem upload_without_backup:
  "os_Stat backupFailsWorld ''/s/a.sav'' = Inr \<lparr>fi_ModTime = 1500000000, fi_IsDir = False\<rparr> \<and>
   fs (checkCloudAndSync exampleGlobals backupFailsWorld ''/s/a.sav'') =
     (fs backupFailsWorld)(''/b'' \<mapsto> Directory 2000000000,
        ''/b/T'' \<mapsto> Directory 2000000000, ''/b/T/a.sav'' \<mapsto> File [] 2000000000) \<and>
   (case bucket (checkCloudAndSync exampleGlobals backupFailsWorld ''/s/a.sav'') of
      None \<Rightarrow> False
    | Some objs \<Rightarrow> map_option obj_data (objs ''a.sav'') = Some ''mine'') \<and>
   fst (SyncFile exampleSyncer backupFailsWorld ''/s/a.sav'') \<noteq> None \<and>
   bucket (snd (SyncFile exampleSyncer backupFailsWorld ''/s/a.sav'')) = bucket backupFailsWorld"
  by (simp add: backupFailsWorld_def remoteNewer_def exampleWorld_def exampleSyncer_def
      exampleGlobals_def fileExists_def copyFile_def ensureDir_def
      createTimestampedBackupDir_def createBackup_def backupAndUpload_def SyncFile_def
      lookupMeta_def extractModTime_def S3Client_Stat_def BucketExists_def FPutObject_def
      StatObject_def os_Stat_def os_ReadFile_def os_Create_def os_WriteFile_def io_Copy_def
      os_Mkdir_def os_MkdirAll_def os_Open_def IsNotExist_def Base_def Clean_def Join_def
      isSlash_def getCloudModTime_def main_copyFile_def ensureFolderExists_def
      createBackupTimeFolder_def uploadToCloud_def main_backupAndUpload_def
      checkCloudAndSync_def UnixNano_def wrap64_def Sprintf_d_def digits.simps digit_def
      ParseInt_def digitVal_def time_Unix_def Sub_def neg_def timeTolerance_def
      Millisecond_def minDuration_def maxDuration_def Let_def)

text \<open>
  C3.  A download transfers the remote bytes to a temporary path first; only when that
  transfer has succeeded is the local file replaced, after which the temporary file is
  deleted and the modification time of the local file is set to the remote one; when a
  step before the replacement fails, the local file keeps its content and its time; a
  failure to set the time is no error.  \<^verbatim>\<open>Syncer.downloadAndReplace\<close> works so in every
  world (lemma \<open>downloadAndReplace_steps\<close>).  main.go does not: there \<^verbatim>\<open>os.Chtimes\<close>
  runs after \<^verbatim>\<open>backupAndReplace\<close> whether or not the local file was replaced, and the
  temporary file is never removed.  In \<open>mkdirFailsWorld\<close> the backup folder cannot be
  created, so the local file is not replaced: after \<^verbatim>\<open>syncFromCloud\<close> (and after
  \<^verbatim>\<open>checkCloudAndSync\<close>) it has its old content and the modification time of the remote
  object, while \<^verbatim>\<open>Syncer.SyncFile\<close> leaves content and time as they were.  In
  \<open>exampleWorld\<close>, where every step succeeds, the temporary file is still there after the
  two functions of main.go and gone after \<^verbatim>\<open>Syncer.SyncFile\<close>.
\<close>

theorem timestamp_set_without_replacement:
  "fs mkdirFailsWorld ''/s/a.sav'' = Some (File ''old'' 0) \<and>
   fs (syncFromCloud_object exampleGlobals mkdirFailsWorld (Inr ''a.sav'')) ''/s/a.sav'' =
     Some (File ''old'' 600000000) \<and>
   fs (checkCloudAndSync exampleGlobals mkdirFailsWorld ''/s/a.sav'') ''/s/a.sav'' =
     Some (File ''old'' 600000000) \<and>
   fs (snd (SyncFile exampleSyncer mkdirFailsWorld ''/s/a.sav'')) ''/s/a.sav'' =
     Some (File ''old'' 0) \<and>
   fs (syncFromCloud_object exampleGlobals exampleWorld (Inr ''a.sav'')) ''/tmp/a.sav.download'' =
     Some (File ''new'' 2000000000) \<and>
   fs (checkCloudAndSync exampleGlobals exampleWorld ''/s/a.sav'') ''/tmp/a.sav.cloud'' =
     Some (File ''new'' 2000000000) \<and>
   fs (snd (SyncFile exampleSyncer exampleWorld ''/s/a.sav'')) ''/tmp/a.sav.download'' = None"
  by (simp add: mkdirFailsWorld_def noFaults_def remoteNewer_def exampleWorld_def
      exampleSyncer_def exampleGlobals_def fileExists_def copyFile_def ensureDir_def
      createTimestampedBackupDir_def createBackup_def downloadAndReplace_def SyncFile_def
      lookupMeta_def extractModTime_def S3Client_Download_def S3Client_Stat_def
      StatObject_def FGetObject_def os_Stat_def os_ReadFile_def os_Create_def
      os_WriteFile_def io_Copy_def os_Mkdir_def os_MkdirAll_def os_Remove_def
      os_Chtimes_def os_Open_def IsNotExist_def Base_def Clean_def Join_def isSlash_def
      getCloudModTime_def main_copyFile_def ensureFolderExists_def
      createBackupTimeFolder_def backupAndReplace_def fetchAndReplace_def
      checkCloudAndSync_def syncFromCloud_object_def ParseInt_def digitVal_def
      time_Unix_def Sub_def timeTolerance_def Millisecond_def minDuration_def
      maxDuration_def shouldSyncFile_def HasSuffix_def Let_def)

text \<open>
  C4.  A remote operation that fails is abandoned and no other transfer takes its place;
  in particular a remote stat that fails causes no upload and no download in the same
  invocation.  The code does not work so for the stat: a stat that fails is not told
  apart from a missing object, and \<^verbatim>\<open>SyncFile\<close> and \<^verbatim>\<open>checkCloudAndSync\<close> take the
  upload branch on every error of the stat (lemma \<open>remote_stat_error_uploads\<close>).  In
  \<open>staleWorld\<close> the remote object exists and is 600 ms newer than the local file, so that
  with a working stat the file would be downloaded; the stat breaks with a network error,
  and the same invocation backs the local file up and uploads it: the call returns no
  error and the object now holds the older local content.
\<close>

theorem failed_stat_uploads:
  "StatObject staleWorld (Base ''/s/a.sav'') = Inl ErrNet \<and>
   S3Client_Stat exampleWorld (Base ''/s/a.sav'') =
     Inr \<lparr>sfi_Name = ''a.sav'', sfi_ModTime = 600000000, sfi_Size = 3\<rparr> \<and>
   os_Stat staleWorld ''/s/a.sav'' = Inr \<lparr>fi_ModTime = 0, fi_IsDir = False\<rparr> \<and>
   SyncFile exampleSyncer staleWorld ''/s/a.sav'' =
     backupAndUpload exampleSyncer staleWorld ''/s/a.sav'' ''a.sav'' \<and>
   fst (SyncFile exampleSyncer staleWorld ''/s/a.sav'') = None \<and>
   (case bucket (snd (SyncFile exampleSyncer staleWorld ''/s/a.sav'')) of
      None \<Rightarrow> False
    | Some objs \<Rightarrow> map_option obj_data (objs ''a.sav'') = Some ''old'') \<and>
   (case bucket (checkCloudAndSync exampleGlobals staleWorld ''/s/a.sav'') of
      None \<Rightarrow> False
    | Some objs \<Rightarrow> map_option obj_data (objs ''a.sav'') = Some ''old'')"
  by (simp add: staleWorld_def noFaults_def remoteNewer_def exampleWorld_def
      exampleSyncer_def exampleGlobals_def fileExists_def copyFile_def ensureDir_def
      createTimestampedBackupDir_def createBackup_def backupAndUpload_def SyncFile_def
      lookupMeta_def extractModTime_def S3Client_Upload_def S3Client_Stat_def
      BucketExists_def FPutObject_def StatObject_def os_Stat_def os_ReadFile_def
      os_Create_def os_WriteFile_def io_Copy_def os_Mkdir_def os_MkdirAll_def os_Open_def
      IsNotExist_def Base_def Clean_def Join_def isSlash_def main_copyFile_def
      ensureFolderExists_def createBackupTimeFolder_def uploadToCloud_def
      main_backupAndUpload_def checkCloudAndSync_def UnixNano_def wrap64_def Sprintf_d_def
      digits.simps digit_def ParseInt_def digitVal_def time_Unix_def Let_def)

text \<open>
  C5.  When the local file exists and the stat of the remote object reports that there is
  no such object, the file is uploaded (backup, then upload), whatever the modification
  time of the local file is; in \<^verbatim>\<open>Syncer.SyncFile\<close> and in \<^verbatim>\<open>checkCloudAndSync\<close>.
\<close>

theorem remote_missing_uploads:
  assumes "os_Stat w filePath = Inr info" and "\<not> fi_IsDir info"
    and "StatObject w (Base filePath) = Inl ErrNoSuchKey"
  shows "SyncFile s w filePath = backupAndUpload s w filePath (Base filePath) \<and>
         checkCloudAndSync g w filePath = main_backupAndUpload g w filePath"
  using assms by (simp add: SyncFile_def checkCloudAndSync_def S3Client_Stat_def)

theorem remote_missing_uploads_witness:
  "os_Stat (exampleWorld\<lparr>bucket := Some Map.empty\<rparr>) ''/s/a.sav'' =
     Inr \<lparr>fi_ModTime = 0, fi_IsDir = False\<rparr> \<and>
   StatObject (exampleWorld\<lparr>bucket := Some Map.empty\<rparr>) (Base ''/s/a.sav'') = Inl ErrNoSuchKey \<and>
   SyncFile exampleSyncer (exampleWorld\<lparr>bucket := Some Map.empty\<rparr>) ''/s/a.sav'' =
     backupAndUpload exampleSyncer (exampleWorld\<lparr>bucket := Some Map.empty\<rparr>)
       ''/s/a.sav'' ''a.sav'' \<and>
   checkCloudAndSync exampleGlobals (exampleWorld\<lparr>bucket := Some Map.empty\<rparr>) ''/s/a.sav'' =
     main_backupAndUpload exampleGlobals (exampleWorld\<lparr>bucket := Some Map.empty\<rparr>) ''/s/a.sav''"
proof -
  let ?w = "exampleWorld\<lparr>bucket := Some Map.empty\<rparr>"
  let ?info = "\<lparr>fi_ModTime = 0, fi_IsDir = False\<rparr>"
  have base: "Base ''/s/a.sav'' = ''a.sav''"
    by (simp add: Base_def isSlash_def)
  have h1: "os_Stat ?w ''/s/a.sav'' = Inr ?info"
    by (simp add: os_Stat_def exampleWorld_def noFaults_def)
  have h2: "\<not> fi_IsDir ?info"
    by simp
  have h3: "StatObject ?w (Base ''/s/a.sav'') = Inl ErrNoSuchKey"
    by (simp add: base StatObject_def exampleWorld_def noFaults_def)
  from remote_missing_uploads [OF h1 h2 h3, of exampleSyncer exampleGlobals] h1 h3
  show ?thesis
    by (simp add: base)
qed

text \<open>
  C6.  At a tick of the timer the full pass runs exactly when the monitored process is
  reported not running, and while it is reported running neither the pass nor the sync of
  a changed file runs.  With a process name the loop of \<^verbatim>\<open>main\<close> works so
  (lemma \<open>main_step_process_guard\<close>).  With an empty process name it never runs the
  periodic pass: a timer tick leaves the state as it is, whatever the world (in
  \<open>exampleWorld\<close> the pass would have downloaded the newer remote file), while a file
  event on a candidate is synchronised (sync is not paused) and
  \<^verbatim>\<open>Syncer.IsProcessRunning\<close> reports that no process is running.
\<close>

theorem no_periodic_pass_without_process_name:
  "main_step (g\<lparr>processName := []\<rparr>) (Tick entries objectCh) (lastEventTime, w) =
     Some (lastEventTime, w) \<and>
   fs (localAndCloudSync (exampleGlobals\<lparr>processName := []\<rparr>) exampleWorld
         (Inr [(''a.sav'', False)]) [Inr ''a.sav'']) ''/s/a.sav'' =
     Some (File ''new'' 600000000) \<and>
   fs exampleWorld ''/s/a.sav'' = Some (File ''old'' 0) \<and>
   main_step (exampleGlobals\<lparr>processName := []\<rparr>) (FsEvent exampleEvent now) (Map.empty, w) =
     Some ([''/s/a.sav'' \<mapsto> now],
           checkCloudAndSync (exampleGlobals\<lparr>processName := []\<rparr>) w ''/s/a.sav'') \<and>
   IsProcessRunning (s\<lparr>s_processName := []\<rparr>) w = False"
  by (simp add: main_step_def IsProcessRunning_def exampleEvent_def Write_def Create_def
      shouldSyncFile_def HasSuffix_def Base_def Clean_def Dir_def Join_def isSlash_def
      localAndCloudSync_def syncFromCloud_def noFaults_def remoteNewer_def exampleWorld_def
      exampleGlobals_def getCloudModTime_def main_copyFile_def ensureFolderExists_def
      createBackupTimeFolder_def backupAndReplace_def fetchAndReplace_def
      checkCloudAndSync_def syncFromCloud_object_def StatObject_def FGetObject_def
      os_Stat_def os_Create_def io_Copy_def os_Mkdir_def os_MkdirAll_def os_Chtimes_def
      os_Open_def IsNotExist_def fileExists_def lookupMeta_def ParseInt_def digitVal_def
      time_Unix_def Sub_def timeTolerance_def Millisecond_def minDuration_def
      maxDuration_def Let_def)

text \<open>
  C7.  Debounce.  For a write or create event on a candidate file directly in the watch
  root: when no acceptance is recorded for its path, the event is accepted and its time is
  recorded; when one is recorded and the time elapsed since is at most the cooldown, the
  event is rejected and the recorded state stays as it is; when more than the cooldown has
  elapsed, the event is accepted and its time replaces the recorded one.  So a second event
  on the path of an accepted one is rejected exactly when it comes within the cooldown of
  the first.  This is stated for \<^verbatim>\<open>FileWatcher.ShouldProcess\<close> and for the event branch
  of the loop of \<^verbatim>\<open>main\<close> (while the monitored process is not running), where an
  accepted event also runs \<^verbatim>\<open>checkCloudAndSync\<close>.
\<close>

theorem debounce:
  assumes "ev_Op event AND (Write OR Create) \<noteq> 0"
    and "shouldSyncFile (ev_Name event)"
    and "Dir (ev_Name event) = Clean (fw_watchPath fw)"
    and "Dir (ev_Name event) = Clean (watchPath g)"
    and "\<not> (processName g \<noteq> [] \<and> isProcessRunning w (processName g))"
  shows
    "(let name = ev_Name event;
          accepted = fw\<lparr>fw_lastEventTime := (fw_lastEventTime fw)(name \<mapsto> now)\<rparr>
      in (fw_lastEventTime fw name = None \<longrightarrow> ShouldProcess fw event now = (True, accepted)) \<and>
         (\<forall>prior. fw_lastEventTime fw name = Some prior \<and> Sub now prior \<le> fw_eventCooldown fw \<longrightarrow>
            ShouldProcess fw event now = (False, fw)) \<and>
         (\<forall>prior. fw_lastEventTime fw name = Some prior \<and> Sub now prior > fw_eventCooldown fw \<longrightarrow>
            ShouldProcess fw event now = (True, accepted)) \<and>
         (\<forall>later. ShouldProcess accepted event later =
            (if Sub later now \<le> fw_eventCooldown fw then (False, accepted)
             else (True, accepted\<lparr>fw_lastEventTime := (fw_lastEventTime accepted)(name \<mapsto> later)\<rparr>)))) \<and>
     (let name = ev_Name event;
          accepted = Some (lastEventTime(name \<mapsto> now), checkCloudAndSync g w name)
      in (lastEventTime name = None \<longrightarrow>
            main_step g (FsEvent event now) (lastEventTime, w) = accepted) \<and>
         (\<forall>prior. lastEventTime name = Some prior \<and> Sub now prior \<le> eventCooldown \<longrightarrow>
            main_step g (FsEvent event now) (lastEventTime, w) = Some (lastEventTime, w)) \<and>
         (\<forall>prior. lastEventTime name = Some prior \<and> Sub now prior > eventCooldown \<longrightarrow>
            main_step g (FsEvent event now) (lastEventTime, w) = accepted))"
proof -
  have watcher: "ShouldProcess f event t =
      (case fw_lastEventTime f (ev_Name event) of
         Some lastTime \<Rightarrow>
           if Sub t lastTime \<le> fw_eventCooldown f then (False, f)
           else (True, f\<lparr>fw_lastEventTime := (fw_lastEventTime f)(ev_Name event \<mapsto> t)\<rparr>)
       | None \<Rightarrow> (True, f\<lparr>fw_lastEventTime := (fw_lastEventTime f)(ev_Name event \<mapsto> t)\<rparr>))"
    if "fw_watchPath f = fw_watchPath fw" for f t
    using assms(1,2,3) that by (simp add: ShouldProcess_def)
  have main: "main_step g (FsEvent event now) (lastEventTime, w) =
      (case lastEventTime (ev_Name event) of
         Some lastTime \<Rightarrow>
           if Sub now lastTime > eventCooldown then
             Some (lastEventTime(ev_Name event \<mapsto> now), checkCloudAndSync g w (ev_Name event))
           else Some (lastEventTime, w)
       | None \<Rightarrow>
           Some (lastEventTime(ev_Name event \<mapsto> now), checkCloudAndSync g w (ev_Name event)))"
    using assms(1,2,4,5) by (auto simp: main_step_def)
  have p1: "let name = ev_Name event;
          accepted = fw\<lparr>fw_lastEventTime := (fw_lastEventTime fw)(name \<mapsto> now)\<rparr>
      in (fw_lastEventTime fw name = None \<longrightarrow> ShouldProcess fw event now = (True, accepted)) \<and>
         (\<forall>prior. fw_lastEventTime fw name = Some prior \<and> Sub now prior \<le> fw_eventCooldown fw \<longrightarrow>
            ShouldProcess fw event now = (False, fw)) \<and>
         (\<forall>prior. fw_lastEventTime fw name = Some prior \<and> Sub now prior > fw_eventCooldown fw \<longrightarrow>
            ShouldProcess fw event now = (True, accepted)) \<and>
         (\<forall>later. ShouldProcess accepted event later =
            (if Sub later now \<le> fw_eventCooldown fw then (False, accepted)
             else (True, accepted\<lparr>fw_lastEventTime := (fw_lastEventTime accepted)(name \<mapsto> later)\<rparr>)))"
    by (auto simp: Let_def watcher)
  have p2: "let name = ev_Name event;
          accepted = Some (lastEventTime(name \<mapsto> now), checkCloudAndSync g w name)
      in (lastEventTime name = None \<longrightarrow>
            main_step g (FsEvent event now) (lastEventTime, w) = accepted) \<and>
         (\<forall>prior. lastEventTime name = Some prior \<and> Sub now prior \<le> eventCooldown \<longrightarrow>
            main_step g (FsEvent event now) (lastEventTime, w) = Some (lastEventTime, w)) \<and>
         (\<forall>prior. lastEventTime name = Some prior \<and> Sub now prior > eventCooldown \<longrightarrow>
            main_step g (FsEvent event now) (lastEventTime, w) = accepted)"
    by (auto simp: Let_def main)
  from p1 p2 show ?thesis by simp
qed

theorem debounce_witness:
  "ev_Op exampleEvent AND (Write OR Create) \<noteq> 0 \<and>
   shouldSyncFile (ev_Name exampleEvent) \<and>
   Dir (ev_Name exampleEvent) = Clean (fw_watchPath exampleWatcher) \<and>
   Dir (ev_Name exampleEvent) = Clean (watchPath exampleGlobals) \<and>
   \<not> (processName exampleGlobals \<noteq> [] \<and>
       isProcessRunning exampleWorld (processName exampleGlobals)) \<and>
   fst (ShouldProcess exampleWatcher exampleEvent 0) \<and>
   \<not> fst (ShouldProcess (snd (ShouldProcess exampleWatcher exampleEvent 0)) exampleEvent
           (50 * Millisecond)) \<and>
   fst (ShouldProcess (snd (ShouldProcess exampleWatcher exampleEvent 0)) exampleEvent
           (260 * Millisecond))"
proof -
  have h1: "ev_Op exampleEvent AND (Write OR Create) \<noteq> 0"
    by (simp add: exampleEvent_def Write_def Create_def)
  have h2: "shouldSyncFile (ev_Name exampleEvent)"
    by (simp add: exampleEvent_def shouldSyncFile_def Base_def HasSuffix_def isSlash_def)
  have h3: "Dir (ev_Name exampleEvent) = Clean (fw_watchPath exampleWatcher)"
    by (simp add: exampleEvent_def exampleWatcher_def Dir_def Clean_def isSlash_def)
  have h4: "Dir (ev_Name exampleEvent) = Clean (watchPath exampleGlobals)"
    by (simp add: exampleEvent_def exampleGlobals_def Dir_def Clean_def isSlash_def)
  have h5: "\<not> (processName exampleGlobals \<noteq> [] \<and>
       isProcessRunning exampleWorld (processName exampleGlobals))"
    by (simp add: exampleGlobals_def exampleWorld_def isProcessRunning_def noFaults_def)
  let ?accepted = "exampleWatcher\<lparr>fw_lastEventTime :=
      (fw_lastEventTime exampleWatcher)(ev_Name exampleEvent \<mapsto> 0)\<rparr>"
  note d = debounce [OF h1 h2 h3 h4 h5, of 0 Map.empty, unfolded Let_def]
  have none: "fw_lastEventTime exampleWatcher (ev_Name exampleEvent) = None"
    by (simp add: exampleWatcher_def)
  have cool: "fw_eventCooldown exampleWatcher = 200 * Millisecond"
    by (simp add: exampleWatcher_def)
  from d none have first: "ShouldProcess exampleWatcher exampleEvent 0 = (True, ?accepted)"
    by blast
  from d have later: "ShouldProcess ?accepted exampleEvent t =
      (if Sub t 0 \<le> fw_eventCooldown exampleWatcher then (False, ?accepted)
       else (True, ?accepted\<lparr>fw_lastEventTime :=
               (fw_lastEventTime ?accepted)(ev_Name exampleEvent \<mapsto> t)\<rparr>))" for t
    by blast
  have second: "\<not> fst (ShouldProcess ?accepted exampleEvent (50 * Millisecond))"
    by (simp add: later cool Sub_def Millisecond_def minDuration_def maxDuration_def)
  have third: "fst (ShouldProcess ?accepted exampleEvent (260 * Millisecond))"
    by (simp add: later cool Sub_def Millisecond_def minDuration_def maxDuration_def)
  from h1 h2 h3 h4 h5 first second third show ?thesis
    by simp
qed

text \<open>
  C8.  Round trip of upload and download, for a modification time \<open>t\<close> that an \<^verbatim>\<open>int64\<close>
  count of nanoseconds since the epoch can represent.  After a successful
  \<^verbatim>\<open>S3Client.Upload\<close> of a file with content \<open>data\<close> and modification time \<open>t\<close>: the
  object carries \<open>t\<close> in decimal under the metadata key \<open>Modtime\<close>; \<^verbatim>\<open>S3Client.Stat\<close>
  recovers exactly \<open>t\<close>; \<^verbatim>\<open>S3Client.Download\<close> to a fresh path writes exactly \<open>data\<close>;
  and \<^verbatim>\<open>downloadAndReplace\<close> to a fresh path leaves there a file with content \<open>data\<close>
  and modification time \<open>t\<close>.  \<^verbatim>\<open>extractModTime\<close> returns the \<open>Modtime\<close> metadata
  whenever it parses and the native last-modified time otherwise.
\<close>

theorem upload_download_roundtrip:
  assumes "fs w localPath = Some (File data t)"
    and "minDuration \<le> t" and "t \<le> maxDuration"
    and "S3Client_Upload w localPath objectName = (None, w1)"
    and "\<not> fails w (NetStatObject objectName)" and "\<not> fails w (NetGetObject objectName)"
    and "fs w freshPath = None"
  shows
    "(\<exists>stat. StatObject w1 objectName = Inr stat \<and>
        oi_UserMetadata stat ''Modtime'' = Some (Sprintf_d t)) \<and>
     (\<exists>cloudInfo. S3Client_Stat w1 objectName = Inr cloudInfo \<and> sfi_ModTime cloudInfo = t) \<and>
     (\<exists>w2 t'. S3Client_Download w1 objectName freshPath = (None, w2) \<and>
        fs w2 freshPath = Some (File data t')) \<and>
     (\<forall>stat. extractModTime stat =
        (case ParseInt (lookupMeta (oi_UserMetadata stat) ''Modtime'') of
           Inr ts \<Rightarrow> ts
         | Inl err \<Rightarrow> oi_LastModified stat)) \<and>
     (\<forall>s. (let tempPath = Join (tempDir w) (objectName @ ''.download'')
           in tempPath \<noteq> freshPath \<and> (\<forall>u. fs w tempPath \<noteq> Some (Directory u)) \<and>
              \<not> fails w (SysOpen tempPath) \<and> \<not> fails w (SysCreate freshPath) \<and>
              \<not> fails w (SysWrite freshPath) \<and> \<not> fails w (SysChtimes freshPath)) \<longrightarrow>
          (\<exists>w3. downloadAndReplace s w1 objectName freshPath t = (None, w3) \<and>
                fs w3 freshPath = Some (File data t)))"
proof -
  let ?meta = "\<lambda>k. [''X-Amz-Meta-Modtime'' \<mapsto> Sprintf_d (UnixNano t),
                  ''X-Amz-Meta-ModtimeString'' \<mapsto> layout w t] (''X-Amz-Meta-'' @ k)"
  let ?obj = "\<lparr>obj_data = data, obj_UserMetadata = ?meta, obj_LastModified = clock w\<rparr>"
  from S3Client_Upload_None [OF assms(4,1)]
  obtain objs where w1: "w1 = w\<lparr>bucket := Some (objs(objectName \<mapsto> ?obj))\<rparr>"
    by blast
  let ?stat = "\<lparr>oi_Key = objectName, oi_LastModified = obj_LastModified ?obj,
          oi_Size = length (obj_data ?obj), oi_UserMetadata = obj_UserMetadata ?obj\<rparr>"
  have st: "StatObject w1 objectName = Inr ?stat"
    unfolding w1 using assms(5) by (rule StatObject_after_put)
  have m: "oi_UserMetadata ?stat ''Modtime'' = Some (Sprintf_d t)"
    using assms(2,3) by (simp add: UnixNano_def wrap64_id)
  from assms(2,3) m have e: "extractModTime ?stat = t"
    by (rule extractModTime_stamped)
  have a: "\<exists>stat. StatObject w1 objectName = Inr stat \<and>
        oi_UserMetadata stat ''Modtime'' = Some (Sprintf_d t)"
    using st m by blast
  have b: "\<exists>cloudInfo. S3Client_Stat w1 objectName = Inr cloudInfo \<and> sfi_ModTime cloudInfo = t"
    using e by (simp add: S3Client_Stat_def st)
  have c: "\<exists>w2 t'. S3Client_Download w1 objectName freshPath = (None, w2) \<and>
        fs w2 freshPath = Some (File data t')"
    using assms(6,7) by (simp add: w1 S3Client_Download_def FGetObject_def)
  have d: "\<exists>w3. downloadAndReplace s w1 objectName freshPath t = (None, w3) \<and>
                fs w3 freshPath = Some (File data t)"
    if "Join (tempDir w) (objectName @ ''.download'') \<noteq> freshPath"
      and "\<forall>u. fs w (Join (tempDir w) (objectName @ ''.download'')) \<noteq> Some (Directory u)"
      and "\<not> fails w (SysOpen (Join (tempDir w) (objectName @ ''.download'')))"
      and "\<not> fails w (SysCreate freshPath)" and "\<not> fails w (SysWrite freshPath)"
      and "\<not> fails w (SysChtimes freshPath)"
    for s
    using that assms(6,7)
    by (auto simp: w1 downloadAndReplace_def fileExists_def os_Stat_def S3Client_Download_def
        FGetObject_def copyFile_def os_ReadFile_def os_WriteFile_def os_Create_def
        os_Remove_def os_Chtimes_def Let_def
        split: option.splits node.splits)
  from a b c d extractModTime_prefers_metadata show ?thesis
    unfolding Let_def by blast
qed

theorem upload_download_roundtrip_witness:
  "fs stampedWorld ''/s/a.sav'' = Some (File ''old'' 1700000000123456789) \<and>
   minDuration \<le> 1700000000123456789 \<and> 1700000000123456789 \<le> maxDuration \<and>
   fst (S3Client_Upload stampedWorld ''/s/a.sav'' ''a.sav'') = None \<and>
   \<not> fails stampedWorld (NetStatObject ''a.sav'') \<and>
   \<not> fails stampedWorld (NetGetObject ''a.sav'') \<and>
   fs stampedWorld ''/s/copy.sav'' = None \<and>
   (\<exists>cloudInfo.
      S3Client_Stat (snd (S3Client_Upload stampedWorld ''/s/a.sav'' ''a.sav'')) ''a.sav'' =
        Inr cloudInfo \<and>
      sfi_ModTime cloudInfo = 1700000000123456789) \<and>
   (\<exists>w3. downloadAndReplace exampleSyncer
            (snd (S3Client_Upload stampedWorld ''/s/a.sav'' ''a.sav'')) ''a.sav''
            ''/s/copy.sav'' 1700000000123456789 = (None, w3) \<and>
         fs w3 ''/s/copy.sav'' = Some (File ''old'' 1700000000123456789))"
proof -
  let ?w1 = "snd (S3Client_Upload stampedWorld ''/s/a.sav'' ''a.sav'')"
  have h1: "fs stampedWorld ''/s/a.sav'' = Some (File ''old'' 1700000000123456789)"
    by (simp add: stampedWorld_def exampleWorld_def Let_def)
  have h2: "minDuration \<le> 1700000000123456789"
    by (simp add: minDuration_def)
  have h3: "1700000000123456789 \<le> maxDuration"
    by (simp add: maxDuration_def)
  have ok: "fst (S3Client_Upload stampedWorld ''/s/a.sav'' ''a.sav'') = None"
    by (simp add: stampedWorld_def noFaults_def remoteNewer_def exampleWorld_def
        S3Client_Upload_def os_Stat_def FPutObject_def Let_def)
  then have h4: "S3Client_Upload stampedWorld ''/s/a.sav'' ''a.sav'' = (None, ?w1)"
    by (simp add: prod_eq_iff)
  have h5: "\<not> fails stampedWorld (NetStatObject ''a.sav'')"
    by (simp add: stampedWorld_def noFaults_def remoteNewer_def exampleWorld_def Let_def)
  have h6: "\<not> fails stampedWorld (NetGetObject ''a.sav'')"
    by (simp add: stampedWorld_def noFaults_def remoteNewer_def exampleWorld_def Let_def)
  have h7: "fs stampedWorld ''/s/copy.sav'' = None"
    by (simp add: stampedWorld_def noFaults_def remoteNewer_def exampleWorld_def Let_def)
  have tmp: "Join (tempDir stampedWorld) (''a.sav'' @ ''.download'') = ''/tmp/a.sav.download''"
    by (simp add: stampedWorld_def noFaults_def remoteNewer_def exampleWorld_def Clean_def
        Join_def isSlash_def Let_def)
  have side: "''/tmp/a.sav.download'' \<noteq> ''/s/copy.sav'' \<and>
      (\<forall>u. fs stampedWorld ''/tmp/a.sav.download'' \<noteq> Some (Directory u)) \<and>
      \<not> fails stampedWorld (SysOpen ''/tmp/a.sav.download'') \<and>
      \<not> fails stampedWorld (SysCreate ''/s/copy.sav'') \<and>
      \<not> fails stampedWorld (SysWrite ''/s/copy.sav'') \<and>
      \<not> fails stampedWorld (SysChtimes ''/s/copy.sav'')"
    by (simp add: stampedWorld_def noFaults_def remoteNewer_def exampleWorld_def Let_def)
  note r = upload_download_roundtrip [OF h1 h2 h3 h4 h5 h6 h7, unfolded Let_def tmp]
  from r have a: "\<exists>cloudInfo. S3Client_Stat ?w1 ''a.sav'' = Inr cloudInfo \<and>
      sfi_ModTime cloudInfo = 1700000000123456789"
    by blast
  from r side have b: "\<exists>w3. downloadAndReplace exampleSyncer ?w1 ''a.sav'' ''/s/copy.sav''
        1700000000123456789 = (None, w3) \<and>
      fs w3 ''/s/copy.sav'' = Some (File ''old'' 1700000000123456789)"
    by blast
  from h1 h2 h3 ok h5 h6 h7 a b show ?thesis
    by blast
qed

text \<open>
  Without the bound on \<open>t\<close> the round trip is not exact: \<^verbatim>\<open>UnixNano\<close> wraps around.
  A file last modified on 2300-01-01 is uploaded with a negative \<open>Modtime\<close>, and the
  modification time recovered from the store lies in the year 1715.
\<close>

theorem roundtrip_counterexample:
  "fs farFutureWorld ''/s/a.sav'' = Some (File ''old'' 10413792000000000000) \<and>
   fst (S3Client_Upload farFutureWorld ''/s/a.sav'' ''a.sav'') = None \<and>
   S3Client_Stat (snd (S3Client_Upload farFutureWorld ''/s/a.sav'' ''a.sav'')) ''a.sav'' =
     Inr \<lparr>sfi_Name = ''a.sav'', sfi_ModTime = - 8032952073709551616, sfi_Size = 3\<rparr>"
  by (simp add: farFutureWorld_def noFaults_def remoteNewer_def exampleWorld_def
      lookupMeta_def extractModTime_def S3Client_Upload_def S3Client_Stat_def
      FPutObject_def StatObject_def os_Stat_def UnixNano_def wrap64_def Sprintf_d_def
      digits.simps digit_def ParseInt_def digitVal_def time_Unix_def Let_def)

text \<open>
  C9.  For every path, the candidate predicate is true exactly when the basename of the
  path ends with the suffix \<open>.sav\<close> and the basename is not \<open>EnhancedInputUserSettings.sav\<close>.
  The predicate is a function of the path alone.
\<close>

theorem shouldSyncFile_iff:
  "shouldSyncFile filePath =
     ((\<exists>stem. Base filePath = stem @ ''.sav'') \<and>
      Base filePath \<noteq> ''EnhancedInputUserSettings.sav'')"
  by (simp add: shouldSyncFile_def Let_def HasSuffix_iff)

text \<open>
  C10.  In \<^verbatim>\<open>uploadToCloud\<close> of main.go, when the local file cannot be stat'ed the
  upload is still attempted, and the \<open>Modtime\<close> metadata it sends is the reading of the
  clock, not a modification time of the file.  So when the transfer itself succeeds for a
  file whose stat broke, the modification time recovered from the remote record is the
  time of the upload, whatever the modification time \<open>t\<close> of the file is.  (The bucket is
  created first when it does not exist; the two calls for that are assumed not to break.)
\<close>

theorem uploadToCloud_unstatable_file:
  assumes "os_Stat w filePath = Inl err"
    and "\<not> fails w NetBucketExists" and "\<not> fails w NetMakeBucket"
  shows
    "(let w1 = (case bucket w of None \<Rightarrow> w\<lparr>bucket := Some Map.empty\<rparr> | Some objs \<Rightarrow> w);
          userMeta = [''X-Amz-Meta-Modtime'' \<mapsto> Sprintf_d (UnixNano (clock w)),
                      ''X-Amz-Meta-ModtimeString'' \<mapsto> layout w (clock w)]
      in uploadToCloud w filePath objectName = snd (FPutObject w1 objectName filePath userMeta) \<and>
         (\<forall>data t. fs w filePath = Some (File data t) \<and>
             \<not> fails w (NetPutObject objectName) \<and> \<not> fails w (NetStatObject objectName) \<and>
             minDuration \<le> clock w \<and> clock w \<le> maxDuration \<longrightarrow>
             (\<exists>stat. StatObject (uploadToCloud w filePath objectName) objectName = Inr stat \<and>
                     oi_UserMetadata stat ''Modtime'' = Some (Sprintf_d (clock w)) \<and>
                     getCloudModTime stat = clock w)))"
proof -
  let ?w1 = "case bucket w of None \<Rightarrow> w\<lparr>bucket := Some Map.empty\<rparr> | Some objs \<Rightarrow> w"
  let ?meta = "[''X-Amz-Meta-Modtime'' \<mapsto> Sprintf_d (UnixNano (clock w)),
                ''X-Amz-Meta-ModtimeString'' \<mapsto> layout w (clock w)]"
  have same: "clock ?w1 = clock w" "layout ?w1 = layout w" "fs ?w1 = fs w" "fails ?w1 = fails w"
    by (simp_all split: option.splits)
  have up: "uploadToCloud w filePath objectName = snd (FPutObject ?w1 objectName filePath ?meta)"
  proof (cases "bucket w")
    case None
    with assms(1,2,3) show ?thesis
      by (simp add: uploadToCloud_def BucketExists_def MakeBucket_def Let_def)
  next
    case (Some objs)
    with assms(1,2) show ?thesis
      by (simp add: uploadToCloud_def BucketExists_def Let_def)
  qed
  have rec: "\<exists>stat. StatObject (uploadToCloud w filePath objectName) objectName = Inr stat \<and>
                     oi_UserMetadata stat ''Modtime'' = Some (Sprintf_d (clock w)) \<and>
                     getCloudModTime stat = clock w"
    if f: "fs w filePath = Some (File data t)"
      and p: "\<not> fails w (NetPutObject objectName)" and s: "\<not> fails w (NetStatObject objectName)"
      and lo: "minDuration \<le> clock w" and hi: "clock w \<le> maxDuration"
    for data t
  proof -
    obtain objs where b: "bucket ?w1 = Some objs"
      by (cases "bucket w") simp_all
    let ?obj = "\<lparr>obj_data = data, obj_UserMetadata = (\<lambda>k. ?meta (''X-Amz-Meta-'' @ k)),
         obj_LastModified = clock ?w1\<rparr>"
    have "FPutObject ?w1 objectName filePath ?meta =
        (None, ?w1\<lparr>bucket := Some (objs(objectName \<mapsto> ?obj))\<rparr>)"
      using f p b by (intro FPutObject_success) (simp_all add: same)
    with up have u: "uploadToCloud w filePath objectName =
        ?w1\<lparr>bucket := Some (objs(objectName \<mapsto> ?obj))\<rparr>"
      by simp
    let ?stat = "\<lparr>oi_Key = objectName, oi_LastModified = obj_LastModified ?obj,
          oi_Size = length (obj_data ?obj), oi_UserMetadata = obj_UserMetadata ?obj\<rparr>"
    have st: "StatObject (uploadToCloud w filePath objectName) objectName = Inr ?stat"
      unfolding u using s by (intro StatObject_after_put) (simp add: same)
    have m: "oi_UserMetadata ?stat ''Modtime'' = Some (Sprintf_d (clock w))"
      using lo hi by (simp add: UnixNano_def wrap64_id)
    from lo hi m have e: "extractModTime ?stat = clock w"
      by (rule extractModTime_stamped)
    from st m e show ?thesis
      unfolding getCloudModTime_eq_extractModTime by blast
  qed
  from up rec show ?thesis
    unfolding Let_def by blast
qed

theorem uploadToCloud_unstatable_file_witness:
  "os_Stat unstatableWorld ''/s/a.sav'' = Inl ErrIO \<and>
   \<not> fails unstatableWorld NetBucketExists \<and> \<not> fails unstatableWorld NetMakeBucket \<and>
   fs unstatableWorld ''/s/a.sav'' = Some (File ''old'' 0) \<and>
   clock unstatableWorld = 2000000000 \<and>
   (\<exists>stat. StatObject (uploadToCloud unstatableWorld ''/s/a.sav'' ''a.sav'') ''a.sav'' = Inr stat \<and>
           oi_UserMetadata stat ''Modtime'' = Some (Sprintf_d 2000000000) \<and>
           getCloudModTime stat = 2000000000)"
proof -
  have h1: "os_Stat unstatableWorld ''/s/a.sav'' = Inl ErrIO"
    by (simp add: unstatableWorld_def exampleWorld_def os_Stat_def)
  have h2: "\<not> fails unstatableWorld NetBucketExists"
    by (simp add: unstatableWorld_def exampleWorld_def)
  have h3: "\<not> fails unstatableWorld NetMakeBucket"
    by (simp add: unstatableWorld_def exampleWorld_def)
  have f: "fs unstatableWorld ''/s/a.sav'' = Some (File ''old'' 0)"
    by (simp add: unstatableWorld_def exampleWorld_def)
  have c: "clock unstatableWorld = 2000000000"
    by (simp add: unstatableWorld_def exampleWorld_def)
  have rest: "\<not> fails unstatableWorld (NetPutObject ''a.sav'') \<and>
      \<not> fails unstatableWorld (NetStatObject ''a.sav'') \<and>
      minDuration \<le> clock unstatableWorld \<and> clock unstatableWorld \<le> maxDuration"
    by (simp add: unstatableWorld_def exampleWorld_def minDuration_def maxDuration_def)
  note u = uploadToCloud_unstatable_file [OF h1 h2 h3, of "''a.sav''", unfolded Let_def]
  from u f rest have "\<exists>stat.
      StatObject (uploadToCloud unstatableWorld ''/s/a.sav'' ''a.sav'') ''a.sav'' = Inr stat \<and>
      oi_UserMetadata stat ''Modtime'' = Some (Sprintf_d (clock unstatableWorld)) \<and>
      getCloudModTime stat = clock unstatableWorld"
    by blast
  with h1 h2 h3 f c show ?thesis
    by simp
qed

end
